theory Spec2Isabelle
  imports Complex_Main "HOL-Library.Word" "HOL-Library.Log_Nat"
begin

section \<open>Data model of \<^verbatim>\<open>achilles::math\<close> (src/math.hpp)\<close>

text \<open>
  The library computes on \<^verbatim>\<open>f32\<close>, and two models of \<^verbatim>\<open>f32\<close> are used.  In the matrix,
  quaternion and normalization code, arithmetic on \<^verbatim>\<open>f32\<close> is exact arithmetic on the reals
  (the type \<open>f32\<close>); the binary32 representation is modelled where the code looks at it, in
  \<^verbatim>\<open>fisqrt\<close>, and infinities and NaNs have no counterpart.  The vector \<^verbatim>\<open>inverseLerp\<close> and
  \<^verbatim>\<open>toEulerAngles\<close>, whose guards compare computed values with constants, are modelled on
  binary32 values (the type \<open>b32\<close>, introduced with its arithmetic below): every operation
  rounds, and the signed zeros, the infinities and NaN are values.  The unions
  \<^verbatim>\<open>float2\<close>, \<^verbatim>\<open>float3\<close>, \<^verbatim>\<open>float4\<close>, \<^verbatim>\<open>quaternion\<close> and \<^verbatim>\<open>float4x4\<close> are records of
  their named components; the component \<^verbatim>\<open>x\<close> of a \<^verbatim>\<open>float3\<close> is the field \<open>f3x\<close>, of a
  \<^verbatim>\<open>quaternion\<close> the field \<open>qx\<close>, and the row \<^verbatim>\<open>rows.a\<close> of a matrix the field \<open>row_a\<close>
  (\<open>b3x\<close> and \<open>bqx\<close> in the records of binary32 components).  The array views \<^verbatim>\<open>values\<close> of
  the unions are functions of these records.
\<close>

type_synonym f32 = real
type_synonym u8 = "8 word"
type_synonym u64 = "64 word"

record float2 =
  f2x :: f32
  f2y :: f32

record float3 =
  f3x :: f32
  f3y :: f32
  f3z :: f32

record float4 =
  f4x :: f32
  f4y :: f32
  f4z :: f32
  f4w :: f32

record quaternion =
  qx :: f32
  qy :: f32
  qz :: f32
  qw :: f32

record float4x4 =
  row_a :: float4
  row_b :: float4
  row_c :: float4
  row_d :: float4

text \<open>The constructors, with the default arguments of the source filled in by the callers.\<close>

definition Float2 :: "f32 \<Rightarrow> f32 \<Rightarrow> float2" where
  "Float2 x y = \<lparr>f2x = x, f2y = y\<rparr>"

definition Float3 :: "f32 \<Rightarrow> f32 \<Rightarrow> f32 \<Rightarrow> float3" where
  "Float3 x y z = \<lparr>f3x = x, f3y = y, f3z = z\<rparr>"

definition Float4 :: "f32 \<Rightarrow> f32 \<Rightarrow> f32 \<Rightarrow> f32 \<Rightarrow> float4" where
  "Float4 x y z w = \<lparr>f4x = x, f4y = y, f4z = z, f4w = w\<rparr>"

definition Quaternion :: "f32 \<Rightarrow> f32 \<Rightarrow> f32 \<Rightarrow> f32 \<Rightarrow> quaternion" where
  "Quaternion x y z w = \<lparr>qx = x, qy = y, qz = z, qw = w\<rparr>"

definition Float4x4 :: "float4 \<Rightarrow> float4 \<Rightarrow> float4 \<Rightarrow> float4 \<Rightarrow> float4x4" where
  "Float4x4 a b c d = \<lparr>row_a = a, row_b = b, row_c = c, row_d = d\<rparr>"

text \<open>The conversion operators between the vector types.\<close>

definition float3_to_float4 :: "float3 \<Rightarrow> float4" where
  "float3_to_float4 v = Float4 (f3x v) (f3y v) (f3z v) 0"

definition float4_to_float3 :: "float4 \<Rightarrow> float3" where
  "float4_to_float3 v = Float3 (f4x v) (f4y v) (f4z v)"

section \<open>Scalar helpers\<close>

definition abs_f :: "f32 \<Rightarrow> f32" where
  "abs_f n = (if n < 0 then - n else n)"

definition nearlyEqual :: "f32 \<Rightarrow> f32 \<Rightarrow> f32 \<Rightarrow> bool" where
  "nearlyEqual a b epsilon = (if a = b then True else (let diff = abs_f (a - b) in diff < epsilon))"

definition clampi :: "u64 \<Rightarrow> u64 \<Rightarrow> u64 \<Rightarrow> u64" where
  "clampi a mn mx = (if a > mx then mx else if a < mn then mn else a)"

section \<open>Array views and indexing\<close>

text \<open>
  A read of \<^verbatim>\<open>values[index]\<close> outside the array is undefined behaviour in the source; the
  model returns \<open>None\<close> for it, so that a function that never reads out of bounds is one
  that never returns \<open>None\<close>.
\<close>

definition array_read :: "'a list \<Rightarrow> nat \<Rightarrow> 'a option" where
  "array_read xs i = (if i < length xs then Some (xs ! i) else None)"

definition float2_values :: "float2 \<Rightarrow> f32 list" where
  "float2_values v = [f2x v, f2y v]"

definition float3_values :: "float3 \<Rightarrow> f32 list" where
  "float3_values v = [f3x v, f3y v, f3z v]"

definition float4_values :: "float4 \<Rightarrow> f32 list" where
  "float4_values v = [f4x v, f4y v, f4z v, f4w v]"

definition float4x4_rows :: "float4x4 \<Rightarrow> float4 list" where
  "float4x4_rows m = [row_a m, row_b m, row_c m, row_d m]"

text \<open>\<^verbatim>\<open>operator []\<close> of the three vector types: the \<^verbatim>\<open>u8\<close> index is widened to the
  \<^verbatim>\<open>u64\<close> parameter of \<^verbatim>\<open>clampi\<close> and the result narrowed back to \<^verbatim>\<open>u8\<close>.\<close>

definition float2_index :: "float2 \<Rightarrow> u8 \<Rightarrow> f32 option" where
  "float2_index v index =
     (let index' = (ucast (clampi (ucast index) 0 1) :: u8)
      in array_read (float2_values v) (unat index'))"

definition float3_index :: "float3 \<Rightarrow> u8 \<Rightarrow> f32 option" where
  "float3_index v index =
     (let index' = (ucast (clampi (ucast index) 0 2) :: u8)
      in array_read (float3_values v) (unat index'))"

definition float4_index :: "float4 \<Rightarrow> u8 \<Rightarrow> f32 option" where
  "float4_index v index =
     (let index' = (ucast (clampi (ucast index) 0 3) :: u8)
      in array_read (float4_values v) (unat index'))"

text \<open>\<^verbatim>\<open>values[i][j]\<close> of a matrix, read and written.\<close>

definition values_read :: "float4x4 \<Rightarrow> nat \<Rightarrow> nat \<Rightarrow> f32 option" where
  "values_read m i j =
     (case array_read (float4x4_rows m) i of
        None \<Rightarrow> None
      | Some r \<Rightarrow> array_read (float4_values r) j)"

definition float4_write :: "float4 \<Rightarrow> nat \<Rightarrow> f32 \<Rightarrow> float4 option" where
  "float4_write v j s =
     (if j = 0 then Some (v\<lparr>f4x := s\<rparr>)
      else if j = 1 then Some (v\<lparr>f4y := s\<rparr>)
      else if j = 2 then Some (v\<lparr>f4z := s\<rparr>)
      else if j = 3 then Some (v\<lparr>f4w := s\<rparr>)
      else None)"

definition values_write :: "float4x4 \<Rightarrow> nat \<Rightarrow> nat \<Rightarrow> f32 \<Rightarrow> float4x4 option" where
  "values_write m i j s =
     (if i = 0 then map_option (\<lambda>r. m\<lparr>row_a := r\<rparr>) (float4_write (row_a m) j s)
      else if i = 1 then map_option (\<lambda>r. m\<lparr>row_b := r\<rparr>) (float4_write (row_b m) j s)
      else if i = 2 then map_option (\<lambda>r. m\<lparr>row_c := r\<rparr>) (float4_write (row_c m) j s)
      else if i = 3 then map_option (\<lambda>r. m\<lparr>row_d := r\<rparr>) (float4_write (row_d m) j s)
      else None)"

definition getColumn :: "float4x4 \<Rightarrow> u8 \<Rightarrow> float4 option" where
  "getColumn m index =
     (let index' = unat (ucast (clampi (ucast index) 0 3) :: u8)
      in case values_read m 0 index' of None \<Rightarrow> None | Some v0 \<Rightarrow>
         (case values_read m 1 index' of None \<Rightarrow> None | Some v1 \<Rightarrow>
         (case values_read m 2 index' of None \<Rightarrow> None | Some v2 \<Rightarrow>
         (case values_read m 3 index' of None \<Rightarrow> None | Some v3 \<Rightarrow>
            Some (Float4 v0 v1 v2 v3)))))"

definition setColumn :: "float4x4 \<Rightarrow> u8 \<Rightarrow> float4 \<Rightarrow> float4x4 option" where
  "setColumn m index val =
     (let index' = unat (ucast (clampi (ucast index) 0 3) :: u8)
      in case values_write m 0 index' (f4x val) of None \<Rightarrow> None | Some m0 \<Rightarrow>
         (case values_write m0 1 index' (f4y val) of None \<Rightarrow> None | Some m1 \<Rightarrow>
         (case values_write m1 2 index' (f4z val) of None \<Rightarrow> None | Some m2 \<Rightarrow>
            values_write m2 3 index' (f4w val))))"

text \<open>The matrix entry \<^verbatim>\<open>values[i][j]\<close> for constant in-range indices, as the rotation
  conversions read it.\<close>

definition values_at :: "float4x4 \<Rightarrow> nat \<Rightarrow> nat \<Rightarrow> f32" where
  "values_at m i j = float4_values (float4x4_rows m ! i) ! j"

section \<open>Vector algebra\<close>

definition float3_neg :: "float3 \<Rightarrow> float3" where
  "float3_neg v = Float3 (- f3x v) (- f3y v) (- f3z v)"


definition float3_scale :: "float3 \<Rightarrow> f32 \<Rightarrow> float3" where
  "float3_scale v s = Float3 (f3x v * s) (f3y v * s) (f3z v * s)"




definition float4_dot :: "float4 \<Rightarrow> float4 \<Rightarrow> f32" where
  "float4_dot u v = (f4x u * f4x v) + (f4y u * f4y v) + (f4z u * f4z v) + (f4w u * f4w v)"

section \<open>Quaternion product\<close>

text \<open>\<^verbatim>\<open>operator *\<close> builds a new quaternion from the components of both operands.\<close>

definition quaternion_mul :: "quaternion \<Rightarrow> quaternion \<Rightarrow> quaternion" where
  "quaternion_mul p q = Quaternion
     (qw p * qx q + qx p * qw q + qy p * qz q - qz p * qy q)
     (qw p * qy q + qy p * qw q + qz p * qx q - qx p * qz q)
     (qw p * qz q + qz p * qw q + qx p * qy q - qy p * qx q)
     (qw p * qw q - qx p * qx q - qy p * qy q - qz p * qz q)"

text \<open>\<^verbatim>\<open>operator *=\<close> assigns the four components of \<^verbatim>\<open>*this\<close> one after the other;
  each assignment reads the object as the assignments before it left it.\<close>

definition quaternion_mul_assign :: "quaternion \<Rightarrow> quaternion \<Rightarrow> quaternion" where
  "quaternion_mul_assign p q =
     (let p1 = p\<lparr>qx := qw p * qx q + qx p * qw q + qy p * qz q - qz p * qy q\<rparr>;
          p2 = p1\<lparr>qy := qw p1 * qy q + qy p1 * qw q + qz p1 * qx q - qx p1 * qz q\<rparr>;
          p3 = p2\<lparr>qz := qw p2 * qz q + qz p2 * qw q + qx p2 * qy q - qy p2 * qx q\<rparr>;
          p4 = p3\<lparr>qw := qw p3 * qw q - qx p3 * qx q - qy p3 * qy q - qz p3 * qz q\<rparr>
      in p4)"

text \<open>\<^verbatim>\<open>operator *(float3)\<close> rotates a vector by the quaternion.\<close>

definition quaternion_mul_float3 :: "quaternion \<Rightarrow> float3 \<Rightarrow> float3" where
  "quaternion_mul_float3 this v =
     (let x2 = qx this + qx this;
          y2 = qy this + qy this;
          z2 = qz this + qz this;
          yy = qy this * y2;
          xy = qx this * y2;
          xz = qx this * z2;
          yz = qy this * z2;
          zz = qz this * z2;
          wz = qw this * z2;
          wy = qw this * y2;
          wx = qw this * x2;
          xx = qx this * x2
      in Float3
           ((1 - yy - zz) * f3x v + (xy - wz) * f3y v + (xz + wy) * f3z v)
           ((xy + wz) * f3x v + (1 - xx - zz) * f3y v + (yz - wx) * f3z v)
           ((xz - wy) * f3x v + (yz + wx) * f3y v + (1 - xx - yy) * f3z v))"

section \<open>The binary32 representation and \<^verbatim>\<open>fisqrt\<close>\<close>

text \<open>
  \<^verbatim>\<open>fisqrt\<close> reads the bits of its argument through a union.  \<open>f32_bits\<close> is the binary32
  encoding of a real: the bit pattern, as a number below \<open>2 ^ 32\<close>, of the nearest binary32
  value (round to nearest, ties to even; subnormals included; values that round beyond the
  largest finite binary32 go to the pattern of infinity).  \<open>f32_val\<close> is the value of a bit
  pattern.  Patterns with all exponent bits set (infinities, NaNs) have no real value;
  \<open>f32_val\<close> continues the formula of the normal numbers there, and no theorem below
  depends on it.  The \<^verbatim>\<open>u32\<close> arithmetic of the seed is written out on \<open>nat\<close> modulo
  \<open>2 ^ 32\<close>.
\<close>

definition rne :: "real \<Rightarrow> int" where
  "rne r = (let f = \<lfloor>r\<rfloor>; d = r - of_int f
            in if d < 1 / 2 then f else if d > 1 / 2 then f + 1
               else if even f then f else f + 1)"

definition f32_exponent :: "real \<Rightarrow> nat" where
  "f32_exponent a = max 1 (floorlog 2 (nat \<lfloor>a * 2 ^ 126\<rfloor>))"

definition f32_bits_abs :: "real \<Rightarrow> nat" where
  "f32_bits_abs a =
     (let e = f32_exponent a;
          i = (e - 1) * 2 ^ 23 + nat (rne (a * 2 ^ 150 / 2 ^ e))
      in if i \<ge> 255 * 2 ^ 23 then 255 * 2 ^ 23 else i)"

definition f32_bits :: "f32 \<Rightarrow> nat" where
  "f32_bits n = (if n < 0 then 2 ^ 31 + f32_bits_abs (- n) else f32_bits_abs n)"

definition f32_val :: "nat \<Rightarrow> f32" where
  "f32_val i =
     (let e = (i div 2 ^ 23) mod 256;
          m = i mod 2 ^ 23;
          a = (if e = 0 then real m / 2 ^ 149 else real (2 ^ 23 + m) * 2 ^ e / 2 ^ 150)
      in if (i div 2 ^ 31) mod 2 = 1 then - a else a)"

definition fisqrt :: "f32 \<Rightarrow> f32" where
  "fisqrt n =
     (let i = f32_bits n;
          i' = (0x5F1FFFF9 + 2 ^ 32 - i div 2) mod 2 ^ 32;
          f = f32_val i'
      in f * (0.703952253 * (2.38924456 - n * f * f)))"

section \<open>Binary32 arithmetic\<close>

text \<open>
  The values of a binary32 variable: the finite numbers, the negative zero, the two
  infinities and NaN.  \<open>Num r\<close> is the finite value \<open>r\<close>, and \<open>Num 0\<close> is the positive zero;
  the payload of a NaN is not modelled.  The operations take their arguments as given and
  round their result, so that they map binary32 values to binary32 values.
\<close>

datatype b32 = Num real | NegZero | PosInf | NegInf | NaN

definition b32_signbit :: "b32 \<Rightarrow> bool" where
  "b32_signbit x = (case x of Num r \<Rightarrow> r < 0 | NegZero \<Rightarrow> True | PosInf \<Rightarrow> False
     | NegInf \<Rightarrow> True | NaN \<Rightarrow> False)"

definition b32_real :: "b32 \<Rightarrow> real" where
  "b32_real x = (case x of Num r \<Rightarrow> r | _ \<Rightarrow> 0)"

definition b32_finite :: "b32 \<Rightarrow> bool" where
  "b32_finite x = (case x of Num r \<Rightarrow> True | NegZero \<Rightarrow> True | _ \<Rightarrow> False)"

definition b32_zero :: "bool \<Rightarrow> b32" where
  "b32_zero s = (if s then NegZero else Num 0)"

definition b32_inf :: "bool \<Rightarrow> b32" where
  "b32_inf s = (if s then NegInf else PosInf)"

text \<open>\<open>b32_decode\<close> is the value of a bit pattern, and \<open>b32_round s a\<close> the binary32 value
  nearest to the real of sign \<open>s\<close> and magnitude \<open>a\<close> (round to nearest, ties to even): a
  magnitude that rounds to zero gives the zero of that sign, one that rounds beyond the
  largest finite value gives the infinity of that sign.\<close>

definition b32_decode :: "nat \<Rightarrow> b32" where
  "b32_decode i =
     (let s = ((i div 2 ^ 31) mod 2 = 1);
          e = (i div 2 ^ 23) mod 256;
          m = i mod 2 ^ 23
      in if e = 255 then (if m = 0 then b32_inf s else NaN)
         else if e = 0 \<and> m = 0 then b32_zero s
         else Num (f32_val i))"

definition b32_round :: "bool \<Rightarrow> real \<Rightarrow> b32" where
  "b32_round s a = b32_decode ((if s then 2 ^ 31 else 0) + f32_bits_abs a)"

text \<open>
  The operators \<^verbatim>\<open>-\<close> (unary), \<^verbatim>\<open>+\<close>, \<^verbatim>\<open>-\<close>, \<^verbatim>\<open>*\<close> and \<^verbatim>\<open>/\<close> on \<^verbatim>\<open>f32\<close>, as IEEE 754
  defines them in the default rounding mode: each is one correctly rounded operation (no
  contraction of a product and a sum into one fused operation, no excess precision).  An
  exact zero sum is negative only when both terms are negative; a product and a quotient
  have the sign that is the exclusive or of the signs of the operands.
\<close>

definition b32_neg :: "b32 \<Rightarrow> b32" where
  "b32_neg x = (case x of Num r \<Rightarrow> (if r = 0 then NegZero else Num (- r)) | NegZero \<Rightarrow> Num 0
     | PosInf \<Rightarrow> NegInf | NegInf \<Rightarrow> PosInf | NaN \<Rightarrow> NaN)"

definition b32_add :: "b32 \<Rightarrow> b32 \<Rightarrow> b32" where
  "b32_add x y =
     (if x = NaN \<or> y = NaN then NaN
      else if \<not> b32_finite x then (if \<not> b32_finite y \<and> x \<noteq> y then NaN else x)
      else if \<not> b32_finite y then y
      else let r = b32_real x + b32_real y
           in if r = 0 then b32_zero (b32_signbit x \<and> b32_signbit y)
              else b32_round (r < 0) \<bar>r\<bar>)"

definition b32_sub :: "b32 \<Rightarrow> b32 \<Rightarrow> b32" where
  "b32_sub x y = b32_add x (b32_neg y)"

definition b32_mul :: "b32 \<Rightarrow> b32 \<Rightarrow> b32" where
  "b32_mul x y =
     (let s = (b32_signbit x \<noteq> b32_signbit y)
      in if x = NaN \<or> y = NaN then NaN
         else if \<not> b32_finite x \<or> \<not> b32_finite y then
           (if (b32_finite x \<and> b32_real x = 0) \<or> (b32_finite y \<and> b32_real y = 0) then NaN
            else b32_inf s)
         else b32_round s \<bar>b32_real x * b32_real y\<bar>)"

definition b32_div :: "b32 \<Rightarrow> b32 \<Rightarrow> b32" where
  "b32_div x y =
     (let s = (b32_signbit x \<noteq> b32_signbit y)
      in if x = NaN \<or> y = NaN then NaN
         else if \<not> b32_finite x then (if \<not> b32_finite y then NaN else b32_inf s)
         else if \<not> b32_finite y then b32_zero s
         else if b32_real y = 0 then (if b32_real x = 0 then NaN else b32_inf s)
         else b32_round s \<bar>b32_real x / b32_real y\<bar>)"

text \<open>The comparisons \<^verbatim>\<open>==\<close>, \<^verbatim>\<open><\<close> and \<^verbatim>\<open>>=\<close>: false when an operand is NaN; the two zeros
  are equal.\<close>

definition b32_eq :: "b32 \<Rightarrow> b32 \<Rightarrow> bool" where
  "b32_eq x y =
     (if x = NaN \<or> y = NaN then False
      else if \<not> b32_finite x \<or> \<not> b32_finite y then x = y
      else b32_real x = b32_real y)"

definition b32_less :: "b32 \<Rightarrow> b32 \<Rightarrow> bool" where
  "b32_less x y =
     (if x = NaN \<or> y = NaN then False
      else if x = NegInf then y \<noteq> NegInf
      else if y = PosInf then x \<noteq> PosInf
      else if x = PosInf \<or> y = NegInf then False
      else b32_real x < b32_real y)"

definition b32_ge :: "b32 \<Rightarrow> b32 \<Rightarrow> bool" where
  "b32_ge x y = (b32_less y x \<or> b32_eq x y)"

text \<open>The helpers \<^verbatim>\<open>sign\<close> and \<^verbatim>\<open>abs\<close> and the constant \<^verbatim>\<open>TAU\<close> (a decimal literal with the
  suffix \<^verbatim>\<open>f\<close>: the binary32 value nearest to it) on binary32 values.\<close>

definition sign :: "b32 \<Rightarrow> b32" where
  "sign n = (if b32_ge n (Num 0) then Num 1 else Num (- 1))"

definition abs_b32 :: "b32 \<Rightarrow> b32" where
  "abs_b32 n = (if b32_less n (Num 0) then b32_neg n else n)"

definition TAU :: b32 where
  "TAU = b32_round False 6.28318530717958647692"

text \<open>
  \<^verbatim>\<open>std::asin\<close> and \<^verbatim>\<open>std::atan2\<close> of the C library, with the special cases of Annex F of the
  C standard; on the other arguments they are taken to return the correctly rounded value of
  the mathematical function.  \<^verbatim>\<open>std::asin\<close> has a domain error for an argument outside
  \<open>[-1, 1]\<close>, an infinity included, and returns NaN then; a NaN argument gives NaN without
  error.
  \<^verbatim>\<open>std::atan2(y, x)\<close> has the sign of \<open>y\<close> and, as magnitude, the angle in \<open>[0, \<pi>]\<close> of the
  point \<open>(x, \<bar>y\<bar>)\<close>.
\<close>

definition std_asin_domain_error :: "b32 \<Rightarrow> bool" where
  "std_asin_domain_error x = (x \<noteq> NaN \<and> (x = PosInf \<or> x = NegInf \<or> \<bar>b32_real x\<bar> > 1))"

definition std_asin :: "b32 \<Rightarrow> b32" where
  "std_asin x =
     (if x = NaN \<or> std_asin_domain_error x then NaN
      else b32_round (b32_signbit x) \<bar>arcsin (b32_real x)\<bar>)"

definition std_atan2 :: "b32 \<Rightarrow> b32 \<Rightarrow> b32" where
  "std_atan2 y x =
     (if y = NaN \<or> x = NaN then NaN
      else b32_round (b32_signbit y)
        (if \<not> b32_finite y then
           (if x = PosInf then pi / 4 else if x = NegInf then 3 * pi / 4 else pi / 2)
         else if x = PosInf then 0
         else if x = NegInf then pi
         else if b32_real x > 0 then arctan (\<bar>b32_real y\<bar> / b32_real x)
         else if b32_real x < 0 then pi + arctan (\<bar>b32_real y\<bar> / b32_real x)
         else if b32_real y \<noteq> 0 then pi / 2
         else if b32_signbit x then pi else 0))"

section \<open>The vector \<^verbatim>\<open>inverseLerp\<close> on binary32 values\<close>

text \<open>The vector types with binary32 components, and the operators that \<^verbatim>\<open>inverseLerp\<close>
  calls: \<^verbatim>\<open>operator ==\<close>, \<^verbatim>\<open>operator -\<close>, \<^verbatim>\<open>sqrMagnitude\<close> and \<^verbatim>\<open>dot\<close>.\<close>

record float2_b32 =
  b2x :: b32
  b2y :: b32

record float3_b32 =
  b3x :: b32
  b3y :: b32
  b3z :: b32

record float4_b32 =
  b4x :: b32
  b4y :: b32
  b4z :: b32
  b4w :: b32

definition float2_b32_eq :: "float2_b32 \<Rightarrow> float2_b32 \<Rightarrow> bool" where
  "float2_b32_eq u v = (b32_eq (b2x u) (b2x v) \<and> b32_eq (b2y u) (b2y v))"

definition float2_b32_sub :: "float2_b32 \<Rightarrow> float2_b32 \<Rightarrow> float2_b32" where
  "float2_b32_sub u v = \<lparr>b2x = b32_sub (b2x u) (b2x v), b2y = b32_sub (b2y u) (b2y v)\<rparr>"

definition float2_b32_sqrMagnitude :: "float2_b32 \<Rightarrow> b32" where
  "float2_b32_sqrMagnitude v = b32_add (b32_mul (b2x v) (b2x v)) (b32_mul (b2y v) (b2y v))"

definition float2_b32_dot :: "float2_b32 \<Rightarrow> float2_b32 \<Rightarrow> b32" where
  "float2_b32_dot u v = b32_add (b32_mul (b2x u) (b2x v)) (b32_mul (b2y u) (b2y v))"

definition float2_inverseLerp :: "float2_b32 \<Rightarrow> float2_b32 \<Rightarrow> float2_b32 \<Rightarrow> b32" where
  "float2_inverseLerp a b c =
     (if float2_b32_eq a b then Num 0
      else let ab = float2_b32_sub b a in
        if b32_eq (float2_b32_sqrMagnitude ab) (Num 0) then Num 0
        else let ac = float2_b32_sub c a in
          if b32_eq (float2_b32_sqrMagnitude ac) (Num 0) then Num 0
          else b32_div (float2_b32_dot ac ab) (float2_b32_dot ab ab))"

definition float3_b32_eq :: "float3_b32 \<Rightarrow> float3_b32 \<Rightarrow> bool" where
  "float3_b32_eq u v =
     (b32_eq (b3x u) (b3x v) \<and> b32_eq (b3y u) (b3y v) \<and> b32_eq (b3z u) (b3z v))"

definition float3_b32_sub :: "float3_b32 \<Rightarrow> float3_b32 \<Rightarrow> float3_b32" where
  "float3_b32_sub u v =
     \<lparr>b3x = b32_sub (b3x u) (b3x v), b3y = b32_sub (b3y u) (b3y v), b3z = b32_sub (b3z u) (b3z v)\<rparr>"

definition float3_b32_sqrMagnitude :: "float3_b32 \<Rightarrow> b32" where
  "float3_b32_sqrMagnitude v =
     b32_add (b32_add (b32_mul (b3x v) (b3x v)) (b32_mul (b3y v) (b3y v))) (b32_mul (b3z v) (b3z v))"

definition float3_b32_dot :: "float3_b32 \<Rightarrow> float3_b32 \<Rightarrow> b32" where
  "float3_b32_dot u v =
     b32_add (b32_add (b32_mul (b3x u) (b3x v)) (b32_mul (b3y u) (b3y v))) (b32_mul (b3z u) (b3z v))"

definition float3_inverseLerp :: "float3_b32 \<Rightarrow> float3_b32 \<Rightarrow> float3_b32 \<Rightarrow> b32" where
  "float3_inverseLerp a b c =
     (if float3_b32_eq a b then Num 0
      else let ab = float3_b32_sub b a in
        if b32_eq (float3_b32_sqrMagnitude ab) (Num 0) then Num 0
        else let ac = float3_b32_sub c a in
          if b32_eq (float3_b32_sqrMagnitude ac) (Num 0) then Num 0
          else b32_div (float3_b32_dot ac ab) (float3_b32_dot ab ab))"

definition float4_b32_eq :: "float4_b32 \<Rightarrow> float4_b32 \<Rightarrow> bool" where
  "float4_b32_eq u v =
     (b32_eq (b4x u) (b4x v) \<and> b32_eq (b4y u) (b4y v) \<and> b32_eq (b4z u) (b4z v)
      \<and> b32_eq (b4w u) (b4w v))"

definition float4_b32_sub :: "float4_b32 \<Rightarrow> float4_b32 \<Rightarrow> float4_b32" where
  "float4_b32_sub u v =
     \<lparr>b4x = b32_sub (b4x u) (b4x v), b4y = b32_sub (b4y u) (b4y v),
      b4z = b32_sub (b4z u) (b4z v), b4w = b32_sub (b4w u) (b4w v)\<rparr>"

definition float4_b32_sqrMagnitude :: "float4_b32 \<Rightarrow> b32" where
  "float4_b32_sqrMagnitude v =
     b32_add (b32_add (b32_add (b32_mul (b4x v) (b4x v)) (b32_mul (b4y v) (b4y v)))
       (b32_mul (b4z v) (b4z v))) (b32_mul (b4w v) (b4w v))"

definition float4_b32_dot :: "float4_b32 \<Rightarrow> float4_b32 \<Rightarrow> b32" where
  "float4_b32_dot u v =
     b32_add (b32_add (b32_add (b32_mul (b4x u) (b4x v)) (b32_mul (b4y u) (b4y v)))
       (b32_mul (b4z u) (b4z v))) (b32_mul (b4w u) (b4w v))"

definition float4_inverseLerp :: "float4_b32 \<Rightarrow> float4_b32 \<Rightarrow> float4_b32 \<Rightarrow> b32" where
  "float4_inverseLerp a b c =
     (if float4_b32_eq a b then Num 0
      else let ab = float4_b32_sub b a in
        if b32_eq (float4_b32_sqrMagnitude ab) (Num 0) then Num 0
        else let ac = float4_b32_sub c a in
          if b32_eq (float4_b32_sqrMagnitude ac) (Num 0) then Num 0
          else b32_div (float4_b32_dot ac ab) (float4_b32_dot ab ab))"

section \<open>\<^verbatim>\<open>toEulerAngles\<close> on binary32 values\<close>

record quaternion_b32 =
  bqx :: b32
  bqy :: b32
  bqz :: b32
  bqw :: b32

text \<open>\<^verbatim>\<open>toEulerAngles\<close> calls \<^verbatim>\<open>std::asin\<close> in one branch only; the model returns the
  angles together with the list of the arguments that \<^verbatim>\<open>std::asin\<close> was called with.\<close>

definition toEulerAngles :: "quaternion_b32 \<Rightarrow> float3_b32 \<times> b32 list" where
  "toEulerAngles q =
     (let x = bqx q; y = bqy q; z = bqz q; w = bqw q;
          xsc = b32_mul (Num 2) (b32_add (b32_mul w x) (b32_mul y z));
          xcc = b32_sub (Num 1) (b32_mul (Num 2) (b32_add (b32_mul x x) (b32_mul y y)));
          rx = std_atan2 xsc xcc;
          sin = b32_mul (Num 2) (b32_sub (b32_mul w y) (b32_mul z x));
          (ry, asin_calls) =
            (if b32_ge (abs_b32 sin) (Num 1)
             then (b32_mul (b32_div TAU (Num 4)) (sign sin), [])
             else (std_asin sin, [sin]));
          zsc = b32_mul (Num 2) (b32_add (b32_mul w z) (b32_mul x y));
          zcc = b32_sub (Num 1) (b32_mul (Num 2) (b32_add (b32_mul y y) (b32_mul z z)));
          rz = std_atan2 zsc zcc
      in (\<lparr>b3x = rx, b3y = ry, b3z = rz\<rparr>, asin_calls))"

section \<open>Normalization\<close>



definition quaternion_sqrMagnitude :: "quaternion \<Rightarrow> f32" where
  "quaternion_sqrMagnitude q = qx q * qx q + qy q * qy q + qz q * qz q + qw q * qw q"

definition quaternion_normalized :: "quaternion \<Rightarrow> quaternion" where
  "quaternion_normalized q =
     (let mag = quaternion_sqrMagnitude q;
          root = fisqrt mag
      in Quaternion (qx q * root) (qy q * root) (qz q * root) (qw q * root))"

section \<open>Quaternion conversions\<close>

text \<open>\<^verbatim>\<open>toAngleAxis\<close> returns through its two reference parameters; the model returns the
  pair \<open>(outAngle, outAxis)\<close>.  \<^verbatim>\<open>std::acos\<close>, and \<^verbatim>\<open>std::tan\<close> in \<^verbatim>\<open>perspectiveGL\<close>, are
  functions of the C library; they are modelled by the mathematical functions.\<close>

definition toAngleAxis :: "quaternion \<Rightarrow> f32 \<times> float3" where
  "toAngleAxis this =
     (let q = (if qw this > 1 then quaternion_normalized this else this);
          outAngle = 2 * arccos (qw q);
          s = fisqrt (1 - qw q * qw q);
          outAxis = Float3 (qx q) (qy q) (qz q)
      in if nearlyEqual s 0 0.001 then (outAngle, outAxis)
         else (outAngle, float3_scale outAxis s))"

section \<open>Matrices\<close>

definition float4x4_mul_float4 :: "float4x4 \<Rightarrow> float4 \<Rightarrow> float4" where
  "float4x4_mul_float4 m v = Float4
     (float4_dot (row_a m) v) (float4_dot (row_b m) v)
     (float4_dot (row_c m) v) (float4_dot (row_d m) v)"

definition float4x4_mul_float3 :: "float4x4 \<Rightarrow> float3 \<Rightarrow> float3" where
  "float4x4_mul_float3 m v =
     float4_to_float3 (float4x4_mul_float4 m (Float4 (f3x v) (f3y v) (f3z v) 1))"

text \<open>In \<^verbatim>\<open>perspectiveMul\<close> the argument of \<^verbatim>\<open>float4::dot\<close> is the \<^verbatim>\<open>float3\<close> \<^verbatim>\<open>v\<close>,
  converted by \<^verbatim>\<open>float3::operator float4\<close>.\<close>

definition perspectiveMul :: "float4x4 \<Rightarrow> float3 \<Rightarrow> float3" where
  "perspectiveMul m v =
     (let result = Float3 (float4_dot (row_a m) (float3_to_float4 v))
                          (float4_dot (row_b m) (float3_to_float4 v))
                          (float4_dot (row_c m) (float3_to_float4 v));
          w = float4_dot (row_d m) (float3_to_float4 v);
          w' = 1 / w;
          r1 = result\<lparr>f3x := f3x result * w'\<rparr>;
          r2 = r1\<lparr>f3y := f3y r1 * w'\<rparr>;
          r3 = r2\<lparr>f3z := f3z r2 * w'\<rparr>
      in r3)"

definition transposed :: "float4x4 \<Rightarrow> float4x4" where
  "transposed m = Float4x4
     (Float4 (values_at m 0 0) (values_at m 1 0) (values_at m 2 0) (values_at m 3 0))
     (Float4 (values_at m 0 1) (values_at m 1 1) (values_at m 2 1) (values_at m 3 1))
     (Float4 (values_at m 0 2) (values_at m 1 2) (values_at m 2 2) (values_at m 3 2))
     (Float4 (values_at m 0 3) (values_at m 1 3) (values_at m 2 3) (values_at m 3 3))"

definition fromRotation :: "quaternion \<Rightarrow> float4x4" where
  "fromRotation q =
     (let x2 = qx q + qx q;
          y2 = qy q + qy q;
          z2 = qz q + qz q;
          yy = qy q * y2;
          xy = qx q * y2;
          xz = qx q * z2;
          yz = qy q * z2;
          zz = qz q * z2;
          wz = qw q * z2;
          wy = qw q * y2;
          wx = qw q * x2;
          xx = qx q * x2
      in Float4x4
           (Float4 (1 - yy - zz) (xy - wz) (xz + wy) 0)
           (Float4 (xy + wz) (1 - xx - zz) (yz - wx) 0)
           (Float4 (xz - wy) (yz + wx) (1 - xx - yy) 0)
           (Float4 0 0 0 1))"

definition toRotation :: "float4x4 \<Rightarrow> quaternion" where
  "toRotation m =
     (let trace = values_at m 0 0 + values_at m 1 1 + values_at m 2 2 in
      if trace > 0 then
        (let root = fisqrt (trace + 1) * 0.5
         in Quaternion
              ((values_at m 1 2 - values_at m 2 1) * root)
              ((values_at m 2 0 - values_at m 0 2) * root)
              ((values_at m 0 1 - values_at m 1 0) * root)
              (root * (trace + 1)))
      else if values_at m 0 0 > values_at m 1 1 \<and> values_at m 0 0 > values_at m 2 2 then
        (let trace1 = values_at m 0 0 - values_at m 1 1 - values_at m 2 2 + 1;
             root = fisqrt trace1 * 0.5
         in Quaternion
              (root * trace1)
              ((values_at m 0 1 + values_at m 1 0) * root)
              ((values_at m 2 0 + values_at m 0 2) * root)
              ((values_at m 1 2 - values_at m 2 1) * root))
      else if values_at m 1 1 > values_at m 2 2 then
        (let trace1 = - values_at m 0 0 + values_at m 1 1 - values_at m 2 2 + 1;
             root = fisqrt trace1 * 0.5
         in Quaternion
              ((values_at m 0 1 + values_at m 1 0) * root)
              (root * trace1)
              ((values_at m 1 2 + values_at m 2 1) * root)
              ((values_at m 2 0 - values_at m 0 2) * root))
      else
        (let trace1 = - values_at m 0 0 - values_at m 1 1 + values_at m 2 2 + 1;
             root = fisqrt trace1 * 0.5
         in Quaternion
              ((values_at m 2 0 + values_at m 0 2) * root)
              ((values_at m 1 2 + values_at m 2 1) * root)
              (root * trace1)
              ((values_at m 0 1 - values_at m 1 0) * root)))"

section \<open>Projection and view matrices\<close>

definition perspectiveGL :: "f32 \<Rightarrow> f32 \<Rightarrow> f32 \<Rightarrow> f32 \<Rightarrow> float4x4" where
  "perspectiveGL fov aspectRatio near far =
     (let tangent = tan (fov * 0.5);
          yScale = 1 / tangent;
          xScale = yScale / aspectRatio;
          a = - (far + near) / (far - near);
          h = (2 * far * near) / (far - near)
      in Float4x4
           (Float4 xScale 0 0 0)
           (Float4 0 yScale 0 0)
           (Float4 0 0 a 1)
           (Float4 0 0 h 0))"

text \<open>The parameter \<^verbatim>\<open>top\<close> of \<^verbatim>\<open>orthoGL\<close> is written \<open>top'\<close>.\<close>

definition orthoGL :: "f32 \<Rightarrow> f32 \<Rightarrow> f32 \<Rightarrow> f32 \<Rightarrow> f32 \<Rightarrow> f32 \<Rightarrow> float4x4" where
  "orthoGL left right bottom top' near far = Float4x4
     (Float4 (2 / (right - left)) 0 0 0)
     (Float4 0 (2 / (top' - bottom)) 0 0)
     (Float4 0 0 (- 2 / (far - near)) 0)
     (Float4 (- (right + left) / (right - left)) (- (top' + bottom) / (top' - bottom))
             (- (far + near) / (far - near)) 0)"


section \<open>Specification-level definitions\<close>

text \<open>The column \<open>j\<close> of a matrix, and the matrix with its column \<open>j\<close> replaced, written
  out on the rows.\<close>

definition column_of :: "float4x4 \<Rightarrow> nat \<Rightarrow> float4" where
  "column_of m j = Float4 (float4_values (row_a m) ! j) (float4_values (row_b m) ! j)
     (float4_values (row_c m) ! j) (float4_values (row_d m) ! j)"

definition with_column :: "float4x4 \<Rightarrow> nat \<Rightarrow> float4 \<Rightarrow> float4x4" where
  "with_column m j val = Float4x4
     (Float4 (if j = 0 then f4x val else f4x (row_a m)) (if j = 1 then f4x val else f4y (row_a m))
             (if j = 2 then f4x val else f4z (row_a m)) (if j = 3 then f4x val else f4w (row_a m)))
     (Float4 (if j = 0 then f4y val else f4x (row_b m)) (if j = 1 then f4y val else f4y (row_b m))
             (if j = 2 then f4y val else f4z (row_b m)) (if j = 3 then f4y val else f4w (row_b m)))
     (Float4 (if j = 0 then f4z val else f4x (row_c m)) (if j = 1 then f4z val else f4y (row_c m))
             (if j = 2 then f4z val else f4z (row_c m)) (if j = 3 then f4z val else f4w (row_c m)))
     (Float4 (if j = 0 then f4w val else f4x (row_d m)) (if j = 1 then f4w val else f4y (row_d m))
             (if j = 2 then f4w val else f4z (row_d m)) (if j = 3 then f4w val else f4w (row_d m)))"

text \<open>The term that \<^verbatim>\<open>toEulerAngles\<close> tests and passes to \<^verbatim>\<open>std::asin\<close>.\<close>

definition pitch_sine :: "quaternion_b32 \<Rightarrow> b32" where
  "pitch_sine q = b32_mul (Num 2) (b32_sub (b32_mul (bqw q) (bqy q)) (b32_mul (bqz q) (bqx q)))"

text \<open>Vectors all of whose components are finite.\<close>

definition float2_b32_finite :: "float2_b32 \<Rightarrow> bool" where
  "float2_b32_finite v = (b32_finite (b2x v) \<and> b32_finite (b2y v))"

definition float3_b32_finite :: "float3_b32 \<Rightarrow> bool" where
  "float3_b32_finite v = (b32_finite (b3x v) \<and> b32_finite (b3y v) \<and> b32_finite (b3z v))"

definition float4_b32_finite :: "float4_b32 \<Rightarrow> bool" where
  "float4_b32_finite v =
     (b32_finite (b4x v) \<and> b32_finite (b4y v) \<and> b32_finite (b4z v) \<and> b32_finite (b4w v))"

text \<open>
  The rotation extraction as claim C3 words it.  The diagonal entry that is largest (the
  last of them, where several are) names the dominant axis \<open>i\<close>; with \<open>j\<close> and \<open>k\<close> the
  two axes that follow \<open>i\<close> cyclically, the diagonal combination is
  \<open>d = m\<^sub>i\<^sub>i - m\<^sub>j\<^sub>j - m\<^sub>k\<^sub>k\<close>, the dominant component is \<open>s * (d + 1)\<close>, the other two vector
  components are the symmetric sums \<open>(m\<^sub>i\<^sub>j + m\<^sub>j\<^sub>i) * s\<close> and \<open>(m\<^sub>k\<^sub>i + m\<^sub>i\<^sub>k) * s\<close>, and
  the scalar is the difference \<open>(m\<^sub>j\<^sub>k - m\<^sub>k\<^sub>j) * s\<close>.
\<close>

definition diagonal :: "float4x4 \<Rightarrow> nat \<Rightarrow> f32" where
  "diagonal m i = values_at m i i"

definition dominant_axis :: "float4x4 \<Rightarrow> nat" where
  "dominant_axis m =
     last (filter (\<lambda>i. list_all (\<lambda>j. diagonal m j \<le> diagonal m i) [0, 1, 2]) [0, 1, 2])"

definition toRotation_spec :: "float4x4 \<Rightarrow> quaternion" where
  "toRotation_spec m =
     (let trace = diagonal m 0 + diagonal m 1 + diagonal m 2 in
      if trace > 0 then
        (let s = fisqrt (trace + 1) / 2
         in Quaternion ((values_at m 1 2 - values_at m 2 1) * s)
                       ((values_at m 2 0 - values_at m 0 2) * s)
                       ((values_at m 0 1 - values_at m 1 0) * s)
                       (s * (trace + 1)))
      else
        (let i = dominant_axis m;
             j = (i + 1) mod 3;
             k = (i + 2) mod 3;
             d = diagonal m i - diagonal m j - diagonal m k;
             s = fisqrt (d + 1) / 2;
             v = (\<lambda>_. 0)(i := s * (d + 1),
                         j := (values_at m i j + values_at m j i) * s,
                         k := (values_at m k i + values_at m i k) * s)
         in Quaternion (v 0) (v 1) (v 2) ((values_at m j k - values_at m k j) * s)))"

text \<open>The seed of \<^verbatim>\<open>fisqrt\<close>: the value of \<^verbatim>\<open>conv.f\<close> after the assignment to \<^verbatim>\<open>conv.i\<close>, as
  a function of the bits of the argument.\<close>

definition fisqrt_seed :: "nat \<Rightarrow> f32" where
  "fisqrt_seed i = f32_val ((0x5F1FFFF9 + 2 ^ 32 - i div 2) mod 2 ^ 32)"





definition float4_near :: "f32 \<Rightarrow> float4 \<Rightarrow> float4 \<Rightarrow> bool" where
  "float4_near eps u v =
     (\<bar>f4x u - f4x v\<bar> \<le> eps \<and> \<bar>f4y u - f4y v\<bar> \<le> eps
      \<and> \<bar>f4z u - f4z v\<bar> \<le> eps \<and> \<bar>f4w u - f4w v\<bar> \<le> eps)"

definition float4x4_near :: "f32 \<Rightarrow> float4x4 \<Rightarrow> float4x4 \<Rightarrow> bool" where
  "float4x4_near eps m n =
     (float4_near eps (row_a m) (row_a n) \<and> float4_near eps (row_b m) (row_b n)
      \<and> float4_near eps (row_c m) (row_c n) \<and> float4_near eps (row_d m) (row_d n))"

text \<open>The reals between the smallest positive normal binary32 and \<open>2\<^sup>1\<^sup>2\<^sup>7\<close>.\<close>

definition f32_normal_range :: "f32 \<Rightarrow> bool" where
  "f32_normal_range s = (1 / 2 ^ 126 \<le> s \<and> s < 2 ^ 127)"

text \<open>A proper rotation of space, given by the nine entries of its matrix: the rows are
  orthonormal and the determinant is \<open>1\<close>.\<close>

definition rotation3 :: "real \<Rightarrow> real \<Rightarrow> real \<Rightarrow> real \<Rightarrow> real \<Rightarrow> real \<Rightarrow> real \<Rightarrow> real \<Rightarrow> real \<Rightarrow> bool" where
  "rotation3 a1 a2 a3 b1 b2 b3 c1 c2 c3 =
     (a1 * a1 + a2 * a2 + a3 * a3 = 1 \<and> b1 * b1 + b2 * b2 + b3 * b3 = 1
      \<and> c1 * c1 + c2 * c2 + c3 * c3 = 1
      \<and> a1 * b1 + a2 * b2 + a3 * b3 = 0 \<and> a1 * c1 + a2 * c2 + a3 * c3 = 0
      \<and> b1 * c1 + b2 * c2 + b3 * c3 = 0
      \<and> a1 * (b2 * c3 - b3 * c2) - a2 * (b1 * c3 - b3 * c1) + a3 * (b1 * c2 - b2 * c1) = 1)"

text \<open>A rotation matrix: a proper rotation in the upper-left 3x3 block, and the homogeneous
  last row and column.\<close>

definition is_rotation :: "float4x4 \<Rightarrow> bool" where
  "is_rotation m =
     (rotation3 (values_at m 0 0) (values_at m 0 1) (values_at m 0 2)
                (values_at m 1 0) (values_at m 1 1) (values_at m 1 2)
                (values_at m 2 0) (values_at m 2 1) (values_at m 2 2)
      \<and> values_at m 0 3 = 0 \<and> values_at m 1 3 = 0 \<and> values_at m 2 3 = 0
      \<and> values_at m 3 0 = 0 \<and> values_at m 3 1 = 0 \<and> values_at m 3 2 = 0
      \<and> values_at m 3 3 = 1)"

text \<open>The argument that \<^verbatim>\<open>toRotation\<close> gives to \<^verbatim>\<open>fisqrt\<close> in the branch it takes.\<close>

definition toRotation_arg :: "float4x4 \<Rightarrow> f32" where
  "toRotation_arg m =
     (let trace = values_at m 0 0 + values_at m 1 1 + values_at m 2 2 in
      if trace > 0 then trace + 1
      else if values_at m 0 0 > values_at m 1 1 \<and> values_at m 0 0 > values_at m 2 2
        then values_at m 0 0 - values_at m 1 1 - values_at m 2 2 + 1
      else if values_at m 1 1 > values_at m 2 2
        then - values_at m 0 0 + values_at m 1 1 - values_at m 2 2 + 1
      else - values_at m 0 0 - values_at m 1 1 + values_at m 2 2 + 1)"

text \<open>The matrix \<open>I + r (M\<^sup>T - I)\<close> on the upper-left 3x3 block, with the homogeneous last
  row and column; for \<open>r = 1\<close> it is the transpose of the block.\<close>

definition transposed_blend :: "f32 \<Rightarrow> float4x4 \<Rightarrow> float4x4" where
  "transposed_blend r m = Float4x4
     (Float4 (1 - r * (1 - values_at m 0 0)) (r * values_at m 1 0) (r * values_at m 2 0) 0)
     (Float4 (r * values_at m 0 1) (1 - r * (1 - values_at m 1 1)) (r * values_at m 2 1) 0)
     (Float4 (r * values_at m 0 2) (r * values_at m 1 2) (1 - r * (1 - values_at m 2 2)) 0)
     (Float4 0 0 0 1)"

text \<open>The rotation by a quarter turn about the z axis.\<close>

definition quarter_turn_z :: float4x4 where
  "quarter_turn_z = Float4x4 (Float4 0 (- 1) 0 0) (Float4 1 0 0 0) (Float4 0 0 1 0) (Float4 0 0 0 1)"

section \<open>Theorems\<close>

lemma clampi_unat: "unat (clampi a 0 mx) = min (unat a) (unat mx)"
  by (auto simp: clampi_def word_less_nat_alt word_le_nat_alt min_def not_less)

lemma unat_widen_u8: "unat (ucast (index :: u8) :: u64) = unat index"
proof -
  have "unat index < 2 ^ 8"
    using unsigned_less [of index] by simp
  then show ?thesis
    by (simp add: unsigned_ucast_eq take_bit_nat_eq_self_iff)
qed

lemma unat_narrow_u64: "unat (k :: u64) < 256 \<Longrightarrow> unat (ucast k :: u8) = unat k"
  by (simp add: unsigned_ucast_eq take_bit_nat_eq_self_iff)

lemma index_clamp:
  fixes index :: u8 and k :: u64
  assumes "unat k < 256"
  shows "unat (ucast (clampi (ucast index) 0 k) :: u8) = min (unat index) (unat k)"
proof -
  have "unat (clampi (ucast index :: u64) 0 k) = min (unat index) (unat k)"
    by (simp add: clampi_unat unat_widen_u8)
  moreover have "min (unat index) (unat k) < 256"
    using assms by simp
  ultimately show ?thesis
    by (simp add: unat_narrow_u64)
qed

lemmas index_clamp_simps =
  index_clamp [where k = 1, simplified] index_clamp [where k = 2, simplified]
  index_clamp [where k = 3, simplified]

subsection \<open>Claim C10: indexing clamps the index\<close>

lemma float2_index_total:
  "float2_index v index = Some (float2_values v ! min (unat index) 1)"
  by (simp add: float2_index_def array_read_def index_clamp_simps float2_values_def)

lemma float3_index_total:
  "float3_index v index = Some (float3_values v ! min (unat index) 2)"
  by (simp add: float3_index_def array_read_def index_clamp_simps float3_values_def)

lemma float4_index_total:
  "float4_index v index = Some (float4_values v ! min (unat index) 3)"
  by (simp add: float4_index_def array_read_def index_clamp_simps float4_values_def)

lemma values_read_in_range:
  "i < 4 \<Longrightarrow> j < 4 \<Longrightarrow>
   values_read m i j = Some (float4_values (float4x4_rows m ! i) ! j)"
  by (simp add: values_read_def array_read_def float4x4_rows_def float4_values_def)

lemma getColumn_total: "getColumn m index = Some (column_of m (min (unat index) 3))"
proof -
  have j: "min (unat index) 3 < 4" by simp
  show ?thesis
    unfolding getColumn_def Let_def index_clamp_simps
    by (simp add: values_read_in_range [OF _ j] column_of_def float4x4_rows_def)
qed

lemma float4_write_in_range:
  "j < 4 \<Longrightarrow> float4_write v j s = Some (Float4
     (if j = 0 then s else f4x v) (if j = 1 then s else f4y v)
     (if j = 2 then s else f4z v) (if j = 3 then s else f4w v))"
  by (auto simp: float4_write_def Float4_def)

lemma setColumn_total: "setColumn m index val = Some (with_column m (min (unat index) 3) val)"
proof -
  have j: "min (unat index) 3 < 4" by simp
  show ?thesis
    unfolding setColumn_def Let_def index_clamp_simps
    by (simp add: values_write_def float4_write_in_range [OF j] with_column_def Float4x4_def)
qed

text \<open>
  Claim C10.  For every index value, \<^verbatim>\<open>operator []\<close> of \<^verbatim>\<open>float2\<close>, \<^verbatim>\<open>float3\<close> and
  \<^verbatim>\<open>float4\<close> and \<^verbatim>\<open>getColumn\<close>/\<^verbatim>\<open>setColumn\<close> of \<^verbatim>\<open>float4x4\<close> clamp the index into
  0..1, 0..2, 0..3 and then access the array in bounds: the read returns the component (the
  column) at the clamped index, which for an out-of-range index is the last one, and
  \<^verbatim>\<open>setColumn\<close> replaces exactly that column.
\<close>

theorem indexing_total_and_clamped:
  "float2_index v2 index = Some (float2_values v2 ! min (unat index) 1)
   \<and> min (unat index) 1 < length (float2_values v2)
   \<and> float3_index v3 index = Some (float3_values v3 ! min (unat index) 2)
   \<and> min (unat index) 2 < length (float3_values v3)
   \<and> float4_index v4 index = Some (float4_values v4 ! min (unat index) 3)
   \<and> min (unat index) 3 < length (float4_values v4)
   \<and> getColumn m index = Some (column_of m (min (unat index) 3))
   \<and> setColumn m index val = Some (with_column m (min (unat index) 3) val)
   \<and> float2_index v2 255 = Some (f2y v2)
   \<and> float3_index v3 255 = Some (f3z v3)
   \<and> float4_index v4 255 = Some (f4w v4)
   \<and> getColumn m 255 = Some (Float4 (f4w (row_a m)) (f4w (row_b m)) (f4w (row_c m)) (f4w (row_d m)))"
  by (simp add: float2_index_total float3_index_total float4_index_total getColumn_total
      setColumn_total column_of_def float2_values_def float3_values_def float4_values_def
      min_less_iff_disj)

subsection \<open>Claim C5: the two quaternion products\<close>

text \<open>
  Claim C5 says that \<^verbatim>\<open>p *= q\<close> leaves in \<^verbatim>\<open>p\<close> the Hamilton product \<^verbatim>\<open>p * q\<close>.  At
  \<^verbatim>\<open>p = (1,0,0,0)\<close>, \<^verbatim>\<open>q = (0,0,1,0)\<close> the pure product is \<^verbatim>\<open>(0,-1,0,0)\<close>, while the
  in-place product computes its \<^verbatim>\<open>y\<close> from the \<^verbatim>\<open>x\<close> it has just overwritten and ends in
  \<^verbatim>\<open>(0,0,0,0)\<close>.
\<close>

theorem quaternion_mul_assign_differs:
  "quaternion_mul (Quaternion 1 0 0 0) (Quaternion 0 0 1 0) = Quaternion 0 (-1) 0 0
   \<and> quaternion_mul_assign (Quaternion 1 0 0 0) (Quaternion 0 0 1 0) = Quaternion 0 0 0 0"
  by (simp add: quaternion_mul_def quaternion_mul_assign_def Quaternion_def)

subsection \<open>Evaluating binary32 arithmetic\<close>

text \<open>The rewrite rules that evaluate the rounding and the operations on closed terms.\<close>

lemmas b32_round_eval = b32_round_def b32_decode_def f32_bits_abs_def f32_exponent_def f32_val_def
  rne_def compute_floorlog Let_def b32_inf_def b32_zero_def

lemmas b32_ops = b32_eq_def b32_sub_def b32_add_def b32_mul_def b32_div_def b32_neg_def
  b32_finite_def b32_real_def b32_signbit_def b32_round_eval

lemma f32_bits_abs_0: "f32_bits_abs 0 = 0"
  by (simp add: f32_bits_abs_def f32_exponent_def rne_def Let_def compute_floorlog)

lemma b32_round_0: "b32_round s 0 = b32_zero s"
  by (simp add: b32_round_def f32_bits_abs_0 b32_decode_def Let_def)

lemma f32_bits_abs_1: "f32_bits_abs 1 = 0x3F800000"
  by (simp add: f32_bits_abs_def f32_exponent_def rne_def Let_def compute_floorlog)

lemma b32_round_1: "b32_round s 1 = Num (if s then - 1 else 1)"
  by (simp add: b32_round_def f32_bits_abs_1 b32_decode_def f32_val_def Let_def)

subsection \<open>Claim C6: degenerate inputs of the vector \<^verbatim>\<open>inverseLerp\<close>\<close>

text \<open>
  Claim C6 as stated includes the probe at the second endpoint, and all inputs.  For
  \<^verbatim>\<open>a = (0,0)\<close>, \<^verbatim>\<open>b = c = (1,0)\<close> the result is 1, not 0.  For \<^verbatim>\<open>a = c = (\<infinity>, 0)\<close>,
  \<^verbatim>\<open>b = (0,0)\<close> the difference \<^verbatim>\<open>c - a\<close> has a NaN component, no guard applies, and the
  result is NaN.
\<close>

theorem inverseLerp_endpoint_counterexample:
  "float2_inverseLerp \<lparr>b2x = Num 0, b2y = Num 0\<rparr> \<lparr>b2x = Num 1, b2y = Num 0\<rparr>
     \<lparr>b2x = Num 1, b2y = Num 0\<rparr> = Num 1
   \<and> float2_inverseLerp \<lparr>b2x = PosInf, b2y = Num 0\<rparr> \<lparr>b2x = Num 0, b2y = Num 0\<rparr>
     \<lparr>b2x = PosInf, b2y = Num 0\<rparr> = NaN"
  by (simp add: float2_inverseLerp_def float2_b32_eq_def float2_b32_sub_def
      float2_b32_sqrMagnitude_def float2_b32_dot_def b32_eq_def b32_sub_def b32_add_def
      b32_mul_def b32_div_def b32_neg_def b32_finite_def b32_real_def b32_signbit_def
      b32_zero_def b32_inf_def b32_round_0 b32_round_1 Let_def)

text \<open>The difference of two finite values that are equal is a zero, its square is the
  positive zero, and so is the sum of such squares.\<close>

lemma b32_sub_eq_zero:
  assumes "b32_eq c a" "b32_finite a"
  shows "b32_sub c a = Num 0 \<or> b32_sub c a = NegZero"
  using assms
  by (cases c; cases a)
     (auto simp: b32_eq_def b32_finite_def b32_sub_def b32_add_def b32_neg_def b32_real_def
        b32_zero_def b32_signbit_def Let_def split: if_splits)

lemma b32_mul_zero_self:
  assumes "z = Num 0 \<or> z = NegZero"
  shows "b32_mul z z = Num 0"
  using assms
  by (auto simp: b32_mul_def b32_finite_def b32_real_def b32_signbit_def b32_round_0 b32_zero_def)

lemma b32_add_zero_zero: "b32_add (Num 0) (Num 0) = Num 0"
  by (simp add: b32_add_def b32_finite_def b32_real_def b32_signbit_def b32_zero_def)

lemma b32_eq_zero_zero: "b32_eq (Num 0) (Num 0)"
  by (simp add: b32_eq_def b32_finite_def b32_real_def)

lemma float2_b32_sqrMagnitude_sub:
  assumes "float2_b32_eq c a" "float2_b32_finite a"
  shows "float2_b32_sqrMagnitude (float2_b32_sub c a) = Num 0"
  using assms
  by (simp add: float2_b32_eq_def float2_b32_finite_def float2_b32_sqrMagnitude_def
      float2_b32_sub_def b32_sub_eq_zero b32_mul_zero_self b32_add_zero_zero)

lemma float3_b32_sqrMagnitude_sub:
  assumes "float3_b32_eq c a" "float3_b32_finite a"
  shows "float3_b32_sqrMagnitude (float3_b32_sub c a) = Num 0"
  using assms
  by (simp add: float3_b32_eq_def float3_b32_finite_def float3_b32_sqrMagnitude_def
      float3_b32_sub_def b32_sub_eq_zero b32_mul_zero_self b32_add_zero_zero)

lemma float4_b32_sqrMagnitude_sub:
  assumes "float4_b32_eq c a" "float4_b32_finite a"
  shows "float4_b32_sqrMagnitude (float4_b32_sub c a) = Num 0"
  using assms
  by (simp add: float4_b32_eq_def float4_b32_finite_def float4_b32_sqrMagnitude_def
      float4_b32_sub_def b32_sub_eq_zero b32_mul_zero_self b32_add_zero_zero)

text \<open>
  The result at the second endpoint is not 1 for all inputs either.  For \<^verbatim>\<open>a = (0,0)\<close> and
  \<^verbatim>\<open>b = c = (2\<^sup>-\<^sup>8\<^sup>0, 0)\<close> the square of \<^verbatim>\<open>b - a\<close> underflows to zero and the second guard
  returns 0; for \<^verbatim>\<open>b = c = (2\<^sup>1\<^sup>0\<^sup>0, 0)\<close> it overflows and the quotient of two infinities is
  NaN.
\<close>

lemma inverseLerp_underflow:
  "float2_inverseLerp \<lparr>b2x = Num 0, b2y = Num 0\<rparr> \<lparr>b2x = Num (1 / 2 ^ 80), b2y = Num 0\<rparr>
     \<lparr>b2x = Num (1 / 2 ^ 80), b2y = Num 0\<rparr> = Num 0"
  by (simp add: float2_inverseLerp_def float2_b32_eq_def float2_b32_sub_def
      float2_b32_sqrMagnitude_def float2_b32_dot_def b32_ops)

lemma inverseLerp_overflow:
  "float2_inverseLerp \<lparr>b2x = Num 0, b2y = Num 0\<rparr> \<lparr>b2x = Num (2 ^ 100), b2y = Num 0\<rparr>
     \<lparr>b2x = Num (2 ^ 100), b2y = Num 0\<rparr> = NaN"
proof -
  define B :: real where "B = 2 ^ 100"
  have B: "0 < B" "B \<noteq> 0" "\<not> B < 0" "\<bar>B\<bar> = B" "\<bar>B * B\<bar> = B * B" "B * B \<noteq> 0"
    by (simp_all add: B_def)
  have r1: "b32_round False B = Num B"
    unfolding B_def by (simp add: b32_round_eval)
  have r2: "b32_round False (B * B) = PosInf"
    unfolding B_def by (simp add: b32_round_eval)
  have d: "float2_b32_sub \<lparr>b2x = Num B, b2y = Num 0\<rparr> \<lparr>b2x = Num 0, b2y = Num 0\<rparr>
      = \<lparr>b2x = Num B, b2y = Num 0\<rparr>"
    using B by (simp add: float2_b32_sub_def b32_sub_def b32_add_def b32_neg_def b32_finite_def
        b32_real_def b32_signbit_def b32_zero_def r1)
  have s: "float2_b32_dot \<lparr>b2x = Num B, b2y = Num 0\<rparr> \<lparr>b2x = Num B, b2y = Num 0\<rparr> = PosInf"
    "float2_b32_sqrMagnitude \<lparr>b2x = Num B, b2y = Num 0\<rparr> = PosInf"
    using B by (simp_all add: float2_b32_dot_def float2_b32_sqrMagnitude_def b32_mul_def
        b32_add_def b32_finite_def b32_real_def b32_signbit_def b32_zero_def r2 b32_round_0)
  have "float2_inverseLerp \<lparr>b2x = Num 0, b2y = Num 0\<rparr> \<lparr>b2x = Num B, b2y = Num 0\<rparr>
     \<lparr>b2x = Num B, b2y = Num 0\<rparr> = NaN"
    using B by (simp add: float2_inverseLerp_def float2_b32_eq_def d s b32_eq_def b32_div_def
        b32_finite_def b32_real_def)
  then show ?thesis
    by (simp only: B_def)
qed

text \<open>
  Claim C6, amended.  For \<^verbatim>\<open>float2\<close>, \<^verbatim>\<open>float3\<close> and \<^verbatim>\<open>float4\<close> and all binary32 inputs
  (infinities and NaNs included), the vector \<^verbatim>\<open>inverseLerp\<close> returns 0 whenever the two
  reference points coincide (\<^verbatim>\<open>a == b\<close>), and whenever the probe coincides with the first
  endpoint (\<^verbatim>\<open>c == a\<close>) and the components of \<^verbatim>\<open>a\<close> are finite.
\<close>

theorem inverseLerp_degenerate:
  "(float2_b32_eq a2 b2 \<longrightarrow> float2_inverseLerp a2 b2 c2 = Num 0)
   \<and> (float2_b32_eq c2 a2 \<and> float2_b32_finite a2 \<longrightarrow> float2_inverseLerp a2 b2 c2 = Num 0)
   \<and> (float3_b32_eq a3 b3 \<longrightarrow> float3_inverseLerp a3 b3 c3 = Num 0)
   \<and> (float3_b32_eq c3 a3 \<and> float3_b32_finite a3 \<longrightarrow> float3_inverseLerp a3 b3 c3 = Num 0)
   \<and> (float4_b32_eq a4 b4 \<longrightarrow> float4_inverseLerp a4 b4 c4 = Num 0)
   \<and> (float4_b32_eq c4 a4 \<and> float4_b32_finite a4 \<longrightarrow> float4_inverseLerp a4 b4 c4 = Num 0)"
  by (simp add: float2_inverseLerp_def float3_inverseLerp_def float4_inverseLerp_def Let_def
      float2_b32_sqrMagnitude_sub float3_b32_sqrMagnitude_sub float4_b32_sqrMagnitude_sub
      b32_eq_zero_zero)

theorem inverseLerp_degenerate_witness:
  "float2_inverseLerp \<lparr>b2x = Num 2, b2y = Num 3\<rparr> \<lparr>b2x = NegZero, b2y = PosInf\<rparr>
       \<lparr>b2x = Num 2, b2y = Num 3\<rparr> = Num 0
   \<and> float3_inverseLerp \<lparr>b3x = Num 2, b3y = PosInf, b3z = NegZero\<rparr>
       \<lparr>b3x = Num 2, b3y = PosInf, b3z = Num 0\<rparr> \<lparr>b3x = Num 5, b3y = NaN, b3z = Num 1\<rparr> = Num 0
   \<and> float4_inverseLerp \<lparr>b4x = Num 0, b4y = Num 0, b4z = Num 0, b4w = Num 0\<rparr>
       \<lparr>b4x = Num 1, b4y = Num 1, b4z = Num 1, b4w = Num 1\<rparr>
       \<lparr>b4x = NegZero, b4y = Num 0, b4z = Num 0, b4w = Num 0\<rparr> = Num 0"
  using inverseLerp_degenerate [of
      "\<lparr>b2x = Num 2, b2y = Num 3\<rparr>" "\<lparr>b2x = NegZero, b2y = PosInf\<rparr>" "\<lparr>b2x = Num 2, b2y = Num 3\<rparr>"
      "\<lparr>b3x = Num 2, b3y = PosInf, b3z = NegZero\<rparr>" "\<lparr>b3x = Num 2, b3y = PosInf, b3z = Num 0\<rparr>"
      "\<lparr>b3x = Num 5, b3y = NaN, b3z = Num 1\<rparr>"
      "\<lparr>b4x = Num 0, b4y = Num 0, b4z = Num 0, b4w = Num 0\<rparr>"
      "\<lparr>b4x = Num 1, b4y = Num 1, b4z = Num 1, b4w = Num 1\<rparr>"
      "\<lparr>b4x = NegZero, b4y = Num 0, b4z = Num 0, b4w = Num 0\<rparr>"]
  by (simp add: float2_b32_eq_def float3_b32_eq_def float4_b32_eq_def float2_b32_finite_def
      float3_b32_finite_def float4_b32_finite_def b32_eq_def b32_finite_def b32_real_def)

subsection \<open>Claim C9: the pitch of \<^verbatim>\<open>toEulerAngles\<close>\<close>

text \<open>The value of \<^verbatim>\<open>TAU / 4\<close>, and of its products with \<open>1\<close> and \<open>- 1\<close>.\<close>

lemma TAU_value: "TAU = Num (13176795 / 2097152)"
  by (simp add: TAU_def b32_round_eval)

lemma TAU_quarter: "b32_div TAU (Num 4) = Num (13176795 / 8388608)"
  by (simp add: TAU_value b32_div_def b32_finite_def b32_real_def b32_signbit_def b32_round_eval)

lemma TAU_quarter_signed:
  "b32_mul (Num (13176795 / 8388608)) (Num 1) = Num (13176795 / 8388608)"
  "b32_mul (Num (13176795 / 8388608)) (Num (- 1)) = Num (- (13176795 / 8388608))"
  by (simp_all add: b32_mul_def b32_finite_def b32_real_def b32_signbit_def b32_round_eval)

text \<open>When the test \<^verbatim>\<open>abs(sin) >= 1.0f\<close> fails, the term is a NaN or a finite number of
  magnitude below 1, and \<^verbatim>\<open>std::asin\<close> has no domain error there.\<close>

lemma not_ge_abs_1:
  assumes "\<not> b32_ge (abs_b32 s) (Num 1)"
  shows "s = NaN \<or> (b32_finite s \<and> \<bar>b32_real s\<bar> < 1)"
  using assms
  by (cases s)
     (auto simp: b32_ge_def abs_b32_def b32_less_def b32_eq_def b32_neg_def b32_finite_def
        b32_real_def split: if_splits)

lemma less_abs_1:
  assumes "b32_less (abs_b32 s) (Num 1)"
  shows "b32_finite s \<and> \<bar>b32_real s\<bar> < 1 \<and> \<not> b32_ge (abs_b32 s) (Num 1)"
  using assms
  by (cases s)
     (auto simp: b32_ge_def abs_b32_def b32_less_def b32_eq_def b32_neg_def b32_finite_def
        b32_real_def split: if_splits)

lemma std_asin_in_domain:
  assumes "s = NaN \<or> (b32_finite s \<and> \<bar>b32_real s\<bar> < 1)"
  shows "\<not> std_asin_domain_error s"
  using assms by (auto simp: std_asin_domain_error_def b32_finite_def)

lemma toEulerAngles_pitch_unfold:
  "b3y (fst (toEulerAngles q)) =
     (if b32_ge (abs_b32 (pitch_sine q)) (Num 1)
      then b32_mul (b32_div TAU (Num 4)) (sign (pitch_sine q))
      else std_asin (pitch_sine q))"
  "snd (toEulerAngles q) =
     (if b32_ge (abs_b32 (pitch_sine q)) (Num 1) then [] else [pitch_sine q])"
  by (simp_all add: toEulerAngles_def pitch_sine_def Let_def split_beta)

text \<open>
  Claim C9.  Let \<open>s\<close> be the term \<^verbatim>\<open>2.0f * (w * y - z * x)\<close> as \<^verbatim>\<open>toEulerAngles\<close> computes it,
  every operation rounded to binary32.  For every quaternion, no call of \<^verbatim>\<open>std::asin\<close> that
  \<^verbatim>\<open>toEulerAngles\<close> makes is a domain error.  When \<^verbatim>\<open>abs(s) >= 1.0f\<close>, it does not call
  \<^verbatim>\<open>std::asin\<close>, and the pitch is \<^verbatim>\<open>(TAU / 4) * sign(s)\<close>, which is the binary32 value
  \<open>13176795 / 2\<^sup>2\<^sup>3\<close> of a quarter turn for \<open>s \<ge> 1\<close> and its negative for \<open>s \<le> - 1\<close>.  When
  \<^verbatim>\<open>abs(s) < 1.0f\<close>, it calls \<^verbatim>\<open>std::asin\<close> once, on \<open>s\<close>, which is finite and lies strictly
  between \<open>- 1\<close> and \<open>1\<close>, and the pitch is the value of that call.
\<close>

theorem toEulerAngles_pitch:
  "list_all (\<lambda>a. \<not> std_asin_domain_error a) (snd (toEulerAngles q))
   \<and> (b32_ge (abs_b32 (pitch_sine q)) (Num 1) \<longrightarrow>
        snd (toEulerAngles q) = []
        \<and> b3y (fst (toEulerAngles q)) = b32_mul (b32_div TAU (Num 4)) (sign (pitch_sine q))
        \<and> b3y (fst (toEulerAngles q))
            = (if b32_ge (pitch_sine q) (Num 0) then Num (13176795 / 8388608)
               else Num (- (13176795 / 8388608))))
   \<and> (b32_less (abs_b32 (pitch_sine q)) (Num 1) \<longrightarrow>
        snd (toEulerAngles q) = [pitch_sine q]
        \<and> b3y (fst (toEulerAngles q)) = std_asin (pitch_sine q)
        \<and> b32_finite (pitch_sine q) \<and> \<bar>b32_real (pitch_sine q)\<bar> < 1)"
proof (intro conjI impI)
  show "list_all (\<lambda>a. \<not> std_asin_domain_error a) (snd (toEulerAngles q))"
    using std_asin_in_domain [OF not_ge_abs_1, of "pitch_sine q"]
    by (simp add: toEulerAngles_pitch_unfold)
next
  assume a: "b32_ge (abs_b32 (pitch_sine q)) (Num 1)"
  then show "snd (toEulerAngles q) = []"
    by (simp add: toEulerAngles_pitch_unfold)
  from a show "b3y (fst (toEulerAngles q)) = b32_mul (b32_div TAU (Num 4)) (sign (pitch_sine q))"
    by (simp add: toEulerAngles_pitch_unfold)
  then show "b3y (fst (toEulerAngles q))
      = (if b32_ge (pitch_sine q) (Num 0) then Num (13176795 / 8388608)
         else Num (- (13176795 / 8388608)))"
    by (simp add: TAU_quarter sign_def TAU_quarter_signed)
next
  assume a: "b32_less (abs_b32 (pitch_sine q)) (Num 1)"
  from less_abs_1 [OF a] show "snd (toEulerAngles q) = [pitch_sine q]"
    by (simp add: toEulerAngles_pitch_unfold)
  from less_abs_1 [OF a]
  show "b3y (fst (toEulerAngles q)) = std_asin (pitch_sine q)"
    by (simp add: toEulerAngles_pitch_unfold)
  from less_abs_1 [OF a] show "b32_finite (pitch_sine q)" "\<bar>b32_real (pitch_sine q)\<bar> < 1"
    by simp_all
qed

text \<open>At the quaternion \<open>(0, 1, 0, 1)\<close> the term is 2: a call of \<^verbatim>\<open>std::asin\<close> on it would be
  a domain error.\<close>

lemma pitch_sine_examples:
  "pitch_sine \<lparr>bqx = Num 0, bqy = Num 1, bqz = Num 0, bqw = Num 1\<rparr> = Num 2"
  "pitch_sine \<lparr>bqx = Num 0, bqy = Num (- 1), bqz = Num 0, bqw = Num 1\<rparr> = Num (- 2)"
  "pitch_sine \<lparr>bqx = Num 0, bqy = Num 0, bqz = Num 0, bqw = Num 1\<rparr> = Num 0"
  by (simp_all add: pitch_sine_def b32_mul_def b32_sub_def b32_add_def b32_neg_def
      b32_finite_def b32_real_def b32_signbit_def b32_round_eval)

lemma std_asin_out_of_domain:
  "std_asin_domain_error (pitch_sine \<lparr>bqx = Num 0, bqy = Num 1, bqz = Num 0, bqw = Num 1\<rparr>)"
  by (simp add: pitch_sine_examples std_asin_domain_error_def b32_real_def)

theorem toEulerAngles_pitch_witness:
  "b3y (fst (toEulerAngles \<lparr>bqx = Num 0, bqy = Num 1, bqz = Num 0, bqw = Num 1\<rparr>))
     = Num (13176795 / 8388608)
   \<and> snd (toEulerAngles \<lparr>bqx = Num 0, bqy = Num 1, bqz = Num 0, bqw = Num 1\<rparr>) = []
   \<and> b3y (fst (toEulerAngles \<lparr>bqx = Num 0, bqy = Num (- 1), bqz = Num 0, bqw = Num 1\<rparr>))
     = Num (- (13176795 / 8388608))
   \<and> b3y (fst (toEulerAngles \<lparr>bqx = Num 0, bqy = Num 0, bqz = Num 0, bqw = Num 1\<rparr>)) = Num 0
   \<and> snd (toEulerAngles \<lparr>bqx = Num 0, bqy = Num 0, bqz = Num 0, bqw = Num 1\<rparr>) = [Num 0]"
  using toEulerAngles_pitch [of "\<lparr>bqx = Num 0, bqy = Num 1, bqz = Num 0, bqw = Num 1\<rparr>"]
    toEulerAngles_pitch [of "\<lparr>bqx = Num 0, bqy = Num (- 1), bqz = Num 0, bqw = Num 1\<rparr>"]
    toEulerAngles_pitch [of "\<lparr>bqx = Num 0, bqy = Num 0, bqz = Num 0, bqw = Num 1\<rparr>"]
  by (simp add: pitch_sine_examples b32_ge_def b32_less_def b32_eq_def abs_b32_def b32_neg_def
      b32_finite_def b32_real_def b32_signbit_def b32_round_0 b32_zero_def std_asin_def std_asin_domain_error_def
      sign_def TAU_quarter TAU_quarter_signed)

subsection \<open>Claim C3: the branches of \<^verbatim>\<open>toRotation\<close>\<close>

lemma dominant_axis_cases:
  "dominant_axis m =
     (if diagonal m 0 > diagonal m 1 \<and> diagonal m 0 > diagonal m 2 then 0
      else if diagonal m 1 > diagonal m 2 then 1 else 2)"
  by (auto simp: dominant_axis_def)

lemma dominant_axis_max:
  "dominant_axis m < 3 \<and> diagonal m 0 \<le> diagonal m (dominant_axis m)
   \<and> diagonal m 1 \<le> diagonal m (dominant_axis m)
   \<and> diagonal m 2 \<le> diagonal m (dominant_axis m)"
  by (auto simp: dominant_axis_cases)

lemma toRotation_eq_spec: "toRotation m = toRotation_spec m"
proof -
  have b: "- x + y - z + 1 = y - z - x + (1::real)" for x y z by simp
  have c: "- x - y + z + 1 = z - x - y + (1::real)" for x y z by simp
  show ?thesis
    unfolding toRotation_def toRotation_spec_def dominant_axis_cases Let_def diagonal_def
    by (simp add: b c mult.commute numeral_2_eq_2 [symmetric] diff_right_commute)
qed

text \<open>
  Claim C3.  \<^verbatim>\<open>toRotation\<close> computes \<open>trace = m\<^sub>0\<^sub>0 + m\<^sub>1\<^sub>1 + m\<^sub>2\<^sub>2\<close>.  If the trace is
  positive, \<open>s = fisqrt (trace + 1) / 2\<close>, the vector part is the three skew-symmetric
  off-diagonal differences scaled by \<open>s\<close> and \<open>w = s * (trace + 1)\<close>.  Otherwise the axis of
  a largest diagonal entry is dominant; its component is \<open>s * (d + 1)\<close> for the diagonal
  combination \<open>d\<close> and \<open>s = fisqrt (d + 1) / 2\<close>, and the other three components are the
  off-diagonal sums and the difference scaled by \<open>s\<close>.
\<close>

theorem toRotation_branches:
  "toRotation m = toRotation_spec m
   \<and> dominant_axis m < 3
   \<and> diagonal m 0 \<le> diagonal m (dominant_axis m)
   \<and> diagonal m 1 \<le> diagonal m (dominant_axis m)
   \<and> diagonal m 2 \<le> diagonal m (dominant_axis m)"
  using toRotation_eq_spec dominant_axis_max by simp

subsection \<open>Claim C8: the depth of the near-plane centre\<close>

text \<open>The depth that \<^verbatim>\<open>perspectiveMul\<close> gives to a point of the axis, and the depth that
  \<^verbatim>\<open>operator *\<close> gives to a point under the matrix of \<^verbatim>\<open>orthoGL\<close>.\<close>

lemma perspectiveMul_perspectiveGL_z:
  "f3z (perspectiveMul (perspectiveGL fov aspectRatio near far) (Float3 0 0 p))
     = (- (far + near) / (far - near) * p) * (1 / ((2 * far * near) / (far - near) * p))"
  by (simp add: perspectiveMul_def perspectiveGL_def float4_dot_def float3_to_float4_def
      Float3_def Float4_def Float4x4_def Let_def)

lemma orthoGL_mul_z:
  "f3z (float4x4_mul_float3 (orthoGL left right bottom top' near far) (Float3 x y p))
     = - 2 / (far - near) * p"
  by (simp add: orthoGL_def float4x4_mul_float3_def float4x4_mul_float4_def float4_dot_def
      float4_to_float3_def Float3_def Float4_def Float4x4_def)

text \<open>\<^verbatim>\<open>perspectiveMul\<close> passes its \<^verbatim>\<open>float3\<close> argument to \<^verbatim>\<open>float4::dot\<close>, so that the point
  enters with \<open>w = 0\<close>; the translation column of the matrix is lost, and for
  \<open>0 < near < far\<close> every point \<open>(0, 0, p)\<close> with \<open>p \<noteq> 0\<close> gets the same depth.\<close>

lemma perspectiveMul_depth_constant:
  assumes "0 < near" "near < far" "p \<noteq> 0"
  shows "f3z (perspectiveMul (perspectiveGL fov aspectRatio near far) (Float3 0 0 p))
    = - (far + near) / (2 * far * near)"
proof -
  have "far - near \<noteq> 0" "far \<noteq> 0" "near \<noteq> 0"
    using assms by simp_all
  then have "(- (far + near) / (far - near) * p) * (1 / ((2 * far * near) / (far - near) * p))
      = - (far + near) / (2 * far * near)"
    using assms(3) by (simp add: divide_simps)
  then show ?thesis
    by (simp add: perspectiveMul_perspectiveGL_z)
qed

text \<open>At \<open>near = 2\<close>, \<open>far = 4\<close> no other way of applying the matrix of \<^verbatim>\<open>perspectiveGL\<close>
  gives \<open>- 1\<close> at the near plane either: \<^verbatim>\<open>operator *\<close> on the homogeneous point followed by
  the division, and the same for the transposed matrix (the product of a row vector with the
  matrix).\<close>

lemma near_plane_depth_other_readings:
  "f4z (float4x4_mul_float4 (perspectiveGL 1 1 2 4) (Float4 0 0 2 1))
     / f4w (float4x4_mul_float4 (perspectiveGL 1 1 2 4) (Float4 0 0 2 1)) = - 5 / 16
   \<and> f4z (float4x4_mul_float4 (perspectiveGL 1 1 2 4) (Float4 0 0 (- 2) 1))
     / f4w (float4x4_mul_float4 (perspectiveGL 1 1 2 4) (Float4 0 0 (- 2) 1)) = - 7 / 16
   \<and> f4z (float4x4_mul_float4 (transposed (perspectiveGL 1 1 2 4)) (Float4 0 0 2 1))
     / f4w (float4x4_mul_float4 (transposed (perspectiveGL 1 1 2 4)) (Float4 0 0 2 1)) = 1
   \<and> f4z (float4x4_mul_float4 (transposed (perspectiveGL 1 1 2 4)) (Float4 0 0 (- 2) 1))
     / f4w (float4x4_mul_float4 (transposed (perspectiveGL 1 1 2 4)) (Float4 0 0 (- 2) 1)) = - 7"
  by (simp add: perspectiveGL_def transposed_def values_at_def float4x4_rows_def float4_values_def
      float4x4_mul_float4_def float4_dot_def
      Float3_def Float4_def Float4x4_def Let_def)

text \<open>Applied to a row vector (the transposed matrix applied by \<^verbatim>\<open>operator *\<close>), the matrix
  of \<^verbatim>\<open>perspectiveGL\<close> takes the point at distance \<open>near\<close> to the depth \<open>1\<close> and the one at
  distance \<open>far\<close> to \<open>- 1\<close>; the matrix of \<^verbatim>\<open>orthoGL\<close> takes \<open>z = - near\<close> to \<open>- 1\<close>, with
  \<open>w = 0\<close>.\<close>

lemma row_vector_depth:
  assumes "0 < near" "near < far"
  shows "f4z (float4x4_mul_float4 (transposed (perspectiveGL fov aspectRatio near far)) (Float4 0 0 near 1))
       / f4w (float4x4_mul_float4 (transposed (perspectiveGL fov aspectRatio near far)) (Float4 0 0 near 1)) = 1"
    and "f4z (float4x4_mul_float4 (transposed (perspectiveGL fov aspectRatio near far)) (Float4 0 0 far 1))
       / f4w (float4x4_mul_float4 (transposed (perspectiveGL fov aspectRatio near far)) (Float4 0 0 far 1)) = - 1"
    and "f4z (float4x4_mul_float4 (transposed (orthoGL left right bottom top' near far)) (Float4 x y (- near) 1)) = - 1"
    and "f4w (float4x4_mul_float4 (transposed (orthoGL left right bottom top' near far)) (Float4 x y (- near) 1)) = 0"
proof -
  have nz: "far - near \<noteq> 0" "far \<noteq> 0" "near \<noteq> 0"
    using assms by simp_all
  have z: "f4z (float4x4_mul_float4 (transposed (perspectiveGL fov aspectRatio near far)) (Float4 0 0 p 1))
      = - (far + near) / (far - near) * p + (2 * far * near) / (far - near)" for p
    by (simp add: perspectiveGL_def transposed_def values_at_def float4x4_rows_def
        float4_values_def float4x4_mul_float4_def float4_dot_def Float4_def Float4x4_def Let_def)
  have w: "f4w (float4x4_mul_float4 (transposed (perspectiveGL fov aspectRatio near far)) (Float4 0 0 p 1))
      = p" for p
    by (simp add: perspectiveGL_def transposed_def values_at_def float4x4_rows_def
        float4_values_def float4x4_mul_float4_def float4_dot_def Float4_def Float4x4_def Let_def)
  have e: "- (u + v) / d * p + (2 * u * v) / d = (2 * u * v - (u + v) * p) / d" for u v p d :: real
    by (cases "d = 0") (simp_all add: field_simps)
  have g: "N / d = c" if "d \<noteq> 0" "N = c * d" for N c d :: real
    using that by simp
  have "- (far + near) / (far - near) * near + (2 * far * near) / (far - near) = near"
    unfolding e by (rule g [OF nz(1)]) (simp add: algebra_simps)
  then show "f4z (float4x4_mul_float4 (transposed (perspectiveGL fov aspectRatio near far)) (Float4 0 0 near 1))
       / f4w (float4x4_mul_float4 (transposed (perspectiveGL fov aspectRatio near far)) (Float4 0 0 near 1)) = 1"
    using nz by (simp add: z w)
  have "- (far + near) / (far - near) * far + (2 * far * near) / (far - near) = - far"
    unfolding e by (rule g [OF nz(1)]) (simp add: algebra_simps)
  then show "f4z (float4x4_mul_float4 (transposed (perspectiveGL fov aspectRatio near far)) (Float4 0 0 far 1))
       / f4w (float4x4_mul_float4 (transposed (perspectiveGL fov aspectRatio near far)) (Float4 0 0 far 1)) = - 1"
    using nz by (simp add: z w)
  have "f4z (float4x4_mul_float4 (transposed (orthoGL left right bottom top' near far)) (Float4 x y (- near) 1))
      = - 2 / (far - near) * (- near) + - (far + near) / (far - near)"
    by (simp add: orthoGL_def transposed_def values_at_def float4x4_rows_def
        float4_values_def float4x4_mul_float4_def float4_dot_def Float4_def Float4x4_def)
  also have "\<dots> = (2 * near - (far + near)) / (far - near)"
  proof -
    have "- 2 / d * (- p) + - (u + p) / d = (2 * p - (u + p)) / d" for u p d :: real
      by (cases "d = 0") (simp_all add: field_simps)
    then show ?thesis .
  qed
  also have "\<dots> = - 1"
    by (rule g [OF nz(1)]) simp
  finally show "f4z (float4x4_mul_float4 (transposed (orthoGL left right bottom top' near far)) (Float4 x y (- near) 1)) = - 1"
    using nz by simp
  show "f4w (float4x4_mul_float4 (transposed (orthoGL left right bottom top' near far)) (Float4 x y (- near) 1)) = 0"
    by (simp add: orthoGL_def transposed_def values_at_def float4x4_rows_def
        float4_values_def float4x4_mul_float4_def float4_dot_def Float4_def Float4x4_def)
qed

text \<open>
  Claim C8 fails for \<^verbatim>\<open>perspectiveGL\<close>.  For \<open>near = 2\<close>, \<open>far = 4\<close>, \<^verbatim>\<open>perspectiveMul\<close>
  maps the centre of the near plane, taken at \<open>z = - near\<close> or at \<open>z = near\<close>, to the depth
  \<open>- 3 / 8\<close> and not to \<open>- 1\<close>, and it maps the centre of the far plane to the same depth:
  the point enters the products with \<open>w = 0\<close>, where \<^verbatim>\<open>operator *(float3)\<close> of the same
  matrix type takes \<open>w = 1\<close> (its third component at the near-plane centre is \<open>7\<close>, the
  undivided one of \<^verbatim>\<open>perspectiveMul\<close> is \<open>6\<close>).
\<close>

theorem perspectiveMul_near_plane_depth:
  "f3z (perspectiveMul (perspectiveGL 1 1 2 4) (Float3 0 0 (- 2))) = - 3 / 8
   \<and> f3z (perspectiveMul (perspectiveGL 1 1 2 4) (Float3 0 0 2)) = - 3 / 8
   \<and> f3z (perspectiveMul (perspectiveGL 1 1 2 4) (Float3 0 0 (- 4))) = - 3 / 8
   \<and> f3z (perspectiveMul (perspectiveGL 1 1 2 4) (Float3 0 0 4)) = - 3 / 8
   \<and> float3_to_float4 (Float3 0 0 (- 2)) = Float4 0 0 (- 2) 0
   \<and> float4_dot (row_c (perspectiveGL 1 1 2 4)) (float3_to_float4 (Float3 0 0 (- 2))) = 6
   \<and> f3z (float4x4_mul_float3 (perspectiveGL 1 1 2 4) (Float3 0 0 (- 2))) = 7"
  by (simp add: perspectiveMul_def perspectiveGL_def float4x4_mul_float3_def
      float4x4_mul_float4_def float4_dot_def float3_to_float4_def float4_to_float3_def
      Float3_def Float4_def Float4x4_def Let_def)

subsection \<open>Evaluating \<^verbatim>\<open>fisqrt\<close>\<close>

lemma f32_exponent_8191: "f32_exponent (8191 / 16777216) = 115"
  by (simp add: f32_exponent_def compute_floorlog)

lemma f32_bits_8191: "f32_bits (8191 / 16777216) = 0x39FFF800"
  by (simp add: f32_bits_def f32_bits_abs_def Let_def f32_exponent_8191 rne_def)

lemma f32_val_422003F9: "f32_val 0x422003F9 = 10486777 / 262144"
  by (simp add: f32_val_def Let_def)

lemma fisqrt_8191:
  "fisqrt (8191 / 16777216) =
     5345821039362354909392619857931395313381 / 118059162071741130342400000000000000000"
  by (simp add: fisqrt_def f32_bits_8191 f32_val_422003F9 Let_def)

subsection \<open>Claim C4: \<^verbatim>\<open>toAngleAxis\<close> near the zero rotation\<close>

text \<open>What \<^verbatim>\<open>toAngleAxis\<close> does for a scalar component that is not above 1: the angle is
  twice the arc cosine, and the axis is left as the vector part when the value
  \<open>fisqrt (1 - w * w)\<close> itself is nearly zero, and scaled by it otherwise.\<close>

lemma toAngleAxis_not_above_1:
  "qw q \<le> 1 \<Longrightarrow>
   toAngleAxis q =
     (2 * arccos (qw q),
      if nearlyEqual (fisqrt (1 - qw q * qw q)) 0 0.001 then Float3 (qx q) (qy q) (qz q)
      else float3_scale (Float3 (qx q) (qy q) (qz q)) (fisqrt (1 - qw q * qw q)))"
  by (auto simp: toAngleAxis_def Let_def)

text \<open>
  Claim C4 says that for \<open>w \<le> 1\<close> with \<open>1 - w * w\<close> near zero the axis is left as the raw
  vector part.  The quaternion \<open>(181 / 8192, 0, 0, 4095 / 4096)\<close> has \<open>w \<le> 1\<close> and
  \<open>1 - w * w = 8191 / 2 ^ 24\<close>, which \<^verbatim>\<open>nearlyEqual\<close> with the tolerance of the source takes
  for zero.  \<^verbatim>\<open>toAngleAxis\<close> tests \<open>fisqrt (1 - w * w)\<close> instead, which is above 45 here, and
  scales the axis: its \<open>x\<close> is above 1, not \<open>181 / 8192\<close>.
\<close>

theorem toAngleAxis_small_angle_axis_scaled:
  "nearlyEqual (1 - (4095 / 4096) * (4095 / 4096)) 0 0.001
   \<and> toAngleAxis (Quaternion (181 / 8192) 0 0 (4095 / 4096)) =
       (2 * arccos (4095 / 4096),
        float3_scale (Float3 (181 / 8192) 0 0) (fisqrt (1 - (4095 / 4096) * (4095 / 4096))))
   \<and> 45 < fisqrt (1 - (4095 / 4096) * (4095 / 4096))
   \<and> 1 < f3x (snd (toAngleAxis (Quaternion (181 / 8192) 0 0 (4095 / 4096))))"
  by (simp add: toAngleAxis_def Let_def Quaternion_def nearlyEqual_def abs_f_def fisqrt_8191
      float3_scale_def Float3_def)

subsection \<open>Claim C2: the accuracy of \<^verbatim>\<open>fisqrt\<close>\<close>

text \<open>Two cubic polynomials on an interval.  The first, \<open>t * (k - t / 2)\<^sup>2\<close>, bounds the
  square of the seed times the argument; it is at most its local maximum and, where it is
  concave, at least the smaller of its values at the ends.\<close>

lemma seed_cubic_upper:
  fixes t k :: real
  assumes "t \<le> 8 * k / 3"
  shows "t * (k - t / 2)\<^sup>2 \<le> 8 * k ^ 3 / 27"
proof -
  have "8 * k ^ 3 / 27 - t * (k - t / 2)\<^sup>2 = (t - 2 * k / 3)\<^sup>2 * (8 * k / 3 - t) / 4"
    by (simp add: power2_eq_square power3_eq_cube field_simps)
  moreover have "0 \<le> (t - 2 * k / 3)\<^sup>2 * (8 * k / 3 - t) / 4"
    using assms by simp
  ultimately show ?thesis by linarith
qed

lemma seed_cubic_lower:
  fixes t k a b L :: real
  assumes "a \<le> t" "t \<le> b" "a + b + t \<le> 4 * k"
    and "L \<le> a * (k - a / 2)\<^sup>2" "L \<le> b * (k - b / 2)\<^sup>2"
  shows "L \<le> t * (k - t / 2)\<^sup>2"
proof (cases "a = b")
  case True
  then show ?thesis using assms by auto
next
  case False
  then have ab: "0 < b - a" using assms by linarith
  have "(b - a) * (t * (k - t / 2)\<^sup>2 - L) =
        (b - a) * ((t - a) * (b - t) * (4 * k - a - b - t)) / 4
        + (a * (k - a / 2)\<^sup>2 - L) * (b - t) + (b * (k - b / 2)\<^sup>2 - L) * (t - a)"
    by (simp add: power2_eq_square field_simps)
  moreover have "0 \<le> (b - a) * ((t - a) * (b - t) * (4 * k - a - b - t)) / 4"
    using assms ab by simp
  moreover have "0 \<le> (a * (k - a / 2)\<^sup>2 - L) * (b - t)" "0 \<le> (b * (k - b / 2)\<^sup>2 - L) * (t - a)"
    using assms by simp_all
  ultimately have "0 \<le> (b - a) * (t * (k - t / 2)\<^sup>2 - L)" by linarith
  then have "0 \<le> t * (k - t / 2)\<^sup>2 - L"
    using ab by (simp add: zero_le_mult_iff)
  then show ?thesis by simp
qed

text \<open>The second, \<open>c1 * t * (c2 - t\<^sup>2)\<close>, is the refinement step applied to a seed that is
  \<open>t\<close> times the exact value.\<close>

lemma newton_upper:
  fixes t s c1 c2 U :: real
  assumes "0 \<le> t" "0 \<le> s" "0 \<le> c1" "c2 \<le> 3 * s\<^sup>2" "2 * c1 * s ^ 3 \<le> U"
  shows "c1 * t * (c2 - t\<^sup>2) \<le> U"
proof -
  have "U - c1 * t * (c2 - t\<^sup>2) =
        c1 * ((t - s)\<^sup>2 * (t + 2 * s)) + c1 * ((3 * s\<^sup>2 - c2) * t) + (U - 2 * c1 * s ^ 3)"
    by (simp add: power2_eq_square power3_eq_cube algebra_simps)
  moreover have "0 \<le> c1 * ((t - s)\<^sup>2 * (t + 2 * s))" "0 \<le> c1 * ((3 * s\<^sup>2 - c2) * t)"
    using assms by simp_all
  ultimately show ?thesis using assms(5) by linarith
qed

lemma newton_lower:
  fixes t a b c1 c2 L :: real
  assumes "a \<le> t" "t \<le> b" "0 \<le> a" "0 \<le> c1"
    and "L \<le> c1 * a * (c2 - a\<^sup>2)" "L \<le> c1 * b * (c2 - b\<^sup>2)"
  shows "L \<le> c1 * t * (c2 - t\<^sup>2)"
proof (cases "a = b")
  case True
  then show ?thesis using assms by auto
next
  case False
  then have ab: "0 < b - a" using assms by linarith
  have "(b - a) * (c1 * t * (c2 - t\<^sup>2) - L) =
        (b - a) * (c1 * ((t - a) * (b - t) * (t + a + b)))
        + (c1 * a * (c2 - a\<^sup>2) - L) * (b - t) + (c1 * b * (c2 - b\<^sup>2) - L) * (t - a)"
    by (simp add: power2_eq_square algebra_simps)
  moreover have "0 \<le> (b - a) * (c1 * ((t - a) * (b - t) * (t + a + b)))"
    using assms ab by simp
  moreover have "0 \<le> (c1 * a * (c2 - a\<^sup>2) - L) * (b - t)" "0 \<le> (c1 * b * (c2 - b\<^sup>2) - L) * (t - a)"
    using assms by simp_all
  ultimately have "0 \<le> (b - a) * (c1 * t * (c2 - t\<^sup>2) - L)" by linarith
  then have "0 \<le> c1 * t * (c2 - t\<^sup>2) - L"
    using ab by (simp add: zero_le_mult_iff)
  then show ?thesis by simp
qed

text \<open>The value of a normal bit pattern, and the bits of the seed.\<close>

lemma f32_val_normal:
  assumes "1 \<le> e" "e \<le> 255" "m < 2 ^ 23"
  shows "f32_val (e * 2 ^ 23 + m) = real (2 ^ 23 + m) * 2 ^ e / 2 ^ 150"
proof -
  have d: "(e * 2 ^ 23 + m) div 2 ^ 23 = e"
    using assms(3) by simp
  have r: "(e * 2 ^ 23 + m) mod 2 ^ 23 = m"
    using assms(3) by simp
  have "e * 2 ^ 23 + m < 2 ^ 31"
    using assms by simp
  then have s: "(e * 2 ^ 23 + m) div 2 ^ 31 = 0"
    by (rule div_less)
  have e: "e mod 256 = e"
    using assms by (intro mod_less) simp
  have e0: "e \<noteq> 0" using assms by simp
  show ?thesis
    unfolding f32_val_def Let_def d r s e using e0 by (simp only: if_False zero_neq_one mod_0)
qed

lemma seed_index:
  assumes "i < 2 ^ 31"
  shows "(0x5F1FFFF9 + 2 ^ 32 - i div 2) mod 2 ^ 32 = 0x5F1FFFF9 - i div (2::nat)"
proof -
  define h where "h = i div 2"
  have "i < 2147483648" using assms by simp
  then have hb: "h \<le> 1073741823" unfolding h_def by linarith
  then have "(1595932665::nat) + 4294967296 - h = 4294967296 + (1595932665 - h)"
    by linarith
  moreover have "((4294967296::nat) + (1595932665 - h)) mod 4294967296 = (1595932665 - h) mod 4294967296"
    by (rule mod_add_self1)
  moreover have "(1595932665 - h) mod 4294967296 = 1595932665 - h"
    by (rule mod_less) linarith
  ultimately have "(1595932665 + 4294967296 - h) mod 4294967296 = 1595932665 - h"
    by (simp only:)
  then show ?thesis unfolding h_def by simp
qed


lemma half_bits:
  fixes q M :: nat
  shows "((2 * q + 1) * 8388608 + M) div 2 = q * 8388608 + 4194304 + M div 2"
    and "((2 * q) * 8388608 + M) div 2 = q * 8388608 + M div 2"
proof -
  have "(2 * q + 1) * 8388608 + M = 2 * (q * 8388608 + 4194304) + M"
    by simp
  then show "((2 * q + 1) * 8388608 + M) div 2 = q * 8388608 + 4194304 + M div 2"
    by (simp only: div_mult_self4 zero_neq_numeral not_False_eq_True)
  have "(2 * q) * 8388608 + M = 2 * (q * 8388608) + M"
    by simp
  then show "((2 * q) * 8388608 + M) div 2 = q * 8388608 + M div 2"
    by (simp only: div_mult_self4 zero_neq_numeral not_False_eq_True)
qed

lemma seed_odd_bits:
  fixes q M e' mj :: nat
  assumes "e' + q = 189" "mj + M div 2 = 6291449"
  shows "1595932665 - ((2 * q + 1) * 8388608 + M) div 2 = e' * 8388608 + mj"
  unfolding half_bits using assms by linarith

lemma seed_even_bits_lo:
  fixes q M e' mj :: nat
  assumes "e' + q = 190" "mj + M div 2 = 2097145"
  shows "1595932665 - ((2 * q) * 8388608 + M) div 2 = e' * 8388608 + mj"
  unfolding half_bits using assms by linarith

lemma seed_even_bits_hi:
  fixes q M e' mj :: nat
  assumes "e' + q = 189" "mj + M div 2 = 10485753"
  shows "1595932665 - ((2 * q) * 8388608 + M) div 2 = e' * 8388608 + mj"
  unfolding half_bits using assms by linarith

lemma seed_value_sq:
  fixes A B :: real
  shows "(B * 2 ^ e / 2 ^ 150)\<^sup>2 * (A * 2 ^ F / 2 ^ 150)
         = ((B / 2 ^ 23)\<^sup>2 * (A / 2 ^ 23)) * (2 ^ (2 * e + F) / 2 ^ 381)"
proof -
  have p: "(2::real) ^ (2 * e + F) = 2 ^ e * 2 ^ e * 2 ^ F"
    by (simp add: power_add mult_2)
  have c: "(2::real) ^ 150 * 2 ^ 150 * 2 ^ 150 = 2 ^ 23 * 2 ^ 23 * 2 ^ 23 * 2 ^ 381"
    by simp
  have "(B * 2 ^ e / 2 ^ 150)\<^sup>2 * (A * 2 ^ F / 2 ^ 150)
        = (B * B * A) * (2 ^ e * 2 ^ e * 2 ^ F) / (2 ^ 150 * 2 ^ 150 * 2 ^ 150)"
    by (simp add: power2_eq_square)
  also have "\<dots> = (B * B * A) * (2 ^ e * 2 ^ e * 2 ^ F) / (2 ^ 23 * 2 ^ 23 * 2 ^ 23 * 2 ^ 381)"
    by (simp only: c)
  also have "\<dots> = ((B / 2 ^ 23)\<^sup>2 * (A / 2 ^ 23)) * (2 ^ e * 2 ^ e * 2 ^ F / 2 ^ 381)"
    by (simp add: power2_eq_square)
  finally show ?thesis by (simp only: p)
qed

lemma half_real:
  fixes M :: nat
  shows "real M / 2 - 1 / 2 \<le> real (M div 2)" "real (M div 2) \<le> real M / 2"
proof -
  have "2 * (M div 2) \<le> M" "M \<le> 2 * (M div 2) + 1" by linarith+
  then have "real (2 * (M div 2)) \<le> real M" "real M \<le> real (2 * (M div 2) + 1)"
    by (simp_all only: of_nat_le_iff)
  then show "real M / 2 - 1 / 2 \<le> real (M div 2)" "real (M div 2) \<le> real M / 2"
    by simp_all
qed


lemma seed_case:
  fixes x y k k' a b L :: real
  assumes y: "k' - x / 2 \<le> y" "y \<le> k - x / 2"
    and x: "a \<le> x" "x \<le> b" "0 \<le> a" "b \<le> 2 * k'" "a + 2 * b \<le> 4 * k'" "b \<le> 8 * k / 3"
    and L: "L \<le> a * (k' - a / 2)\<^sup>2" "L \<le> b * (k' - b / 2)\<^sup>2"
  shows "L \<le> y\<^sup>2 * x" "y\<^sup>2 * x \<le> 8 * k ^ 3 / 27"
proof -
  have x0: "0 \<le> x" using x(1,3) by linarith
  have n: "0 \<le> k' - x / 2" using x(2,4) by linarith
  have y0: "0 \<le> y" using n y(1) by linarith
  have "(k' - x / 2)\<^sup>2 \<le> y\<^sup>2"
    using y(1) n by (rule power_mono)
  then have 1: "x * (k' - x / 2)\<^sup>2 \<le> x * y\<^sup>2"
    using x0 by (rule mult_left_mono)
  have "y\<^sup>2 \<le> (k - x / 2)\<^sup>2"
    using y(2) y0 by (rule power_mono)
  then have 2: "x * y\<^sup>2 \<le> x * (k - x / 2)\<^sup>2"
    using x0 by (rule mult_left_mono)
  have s: "a + b + x \<le> 4 * k'" using x(2,5) by linarith
  have "L \<le> x * (k' - x / 2)\<^sup>2"
    using x(1) x(2) s L by (rule seed_cubic_lower)
  then show "L \<le> y\<^sup>2 * x" using 1 by (simp add: mult.commute)
  have "x \<le> 8 * k / 3" using x(2,6) by linarith
  then have "x * (k - x / 2)\<^sup>2 \<le> 8 * k ^ 3 / 27"
    by (rule seed_cubic_upper)
  then show "y\<^sup>2 * x \<le> 8 * k ^ 3 / 27" using 2 by (simp add: mult.commute)
qed

text \<open>The square of the seed times the value of the bit pattern lies between 0.7499 and
  27/32, for the three shapes of the seed: odd exponent field, even exponent field without
  and with a borrow from the exponent.\<close>

lemma f32_val_normal':
  assumes "1 \<le> e" "e \<le> 255" "m < 8388608"
  shows "f32_val (e * 8388608 + m) = (8388608 + real m) * 2 ^ e / 2 ^ 150"
  using f32_val_normal [of e m] assms by simp

lemma fisqrt_seed_index:
  assumes "i < 2147483648"
  shows "fisqrt_seed i = f32_val (1595932665 - i div 2)"
  unfolding fisqrt_seed_def using seed_index [of i] assms by simp

lemma seed_bounds_odd:
  fixes q M :: nat
  assumes "q \<le> 126" "M < 8388608"
  defines "i \<equiv> (2 * q + 1) * 8388608 + M"
  shows "0 < fisqrt_seed i \<and> 7499 / 10000 \<le> (fisqrt_seed i)\<^sup>2 * f32_val i
         \<and> (fisqrt_seed i)\<^sup>2 * f32_val i \<le> 27 / 32"
proof -
  define e' where "e' = 189 - q"
  define mj where "mj = 6291449 - M div 2"
  define x where "x = (8388608 + real M) / 2 ^ 23"
  define y where "y = (8388608 + real mj) / 2 ^ 23"
  have h: "M div 2 \<le> 4194303" using assms(2) by linarith
  have e': "e' + q = 189" "1 \<le> e'" "e' \<le> 255" using assms(1) by (simp_all add: e'_def)
  have mj: "mj + M div 2 = 6291449" "mj < 8388608" using h by (simp_all add: mj_def)
  have "i < 2147483648" using assms by (simp add: i_def)
  then have "fisqrt_seed i = f32_val (1595932665 - i div 2)"
    by (rule fisqrt_seed_index)
  also have "1595932665 - i div 2 = e' * 8388608 + mj"
    unfolding i_def using e'(1) mj(1) by (rule seed_odd_bits)
  also have "f32_val (e' * 8388608 + mj) = (8388608 + real mj) * 2 ^ e' / 2 ^ 150"
    using e'(2,3) mj(2) by (rule f32_val_normal')
  finally have s: "fisqrt_seed i = (8388608 + real mj) * 2 ^ e' / 2 ^ 150" .
  have v: "f32_val i = (8388608 + real M) * 2 ^ (2 * q + 1) / 2 ^ 150"
    unfolding i_def using assms by (intro f32_val_normal') simp_all
  define z where "z = y\<^sup>2 * x"
  have "2 * e' + (2 * q + 1) = 379" using e'(1) by linarith
  then have "(fisqrt_seed i)\<^sup>2 * f32_val i = z * (2 ^ 379 / 2 ^ 381)"
    unfolding s v seed_value_sq x_def y_def z_def by (simp only:)
  then have p: "(fisqrt_seed i)\<^sup>2 * f32_val i = z / 4"
    by simp
  have rm: "real mj = 6291449 - real (M div 2)"
    using mj(1) by linarith
  have yl: "18874361 / 8388608 - x / 2 \<le> y" and yu: "y \<le> 9 / 4 - x / 2"
    using half_real [of M] by (simp_all add: x_def y_def rm field_simps)
  have xb: "1 \<le> x" "x \<le> 2"
    using assms(2) by (simp_all add: x_def)
  have "306 / 100 \<le> z"
    unfolding z_def by (rule seed_case(1) [OF yl yu xb]) (simp_all add: power2_eq_square)
  moreover have "z \<le> 8 * (9 / 4) ^ 3 / 27"
    unfolding z_def
    by (rule seed_case(2) [OF yl yu xb, where L = 0]) (simp_all add: power2_eq_square)
  ultimately have "7499 / 10000 \<le> z / 4" "z / 4 \<le> 27 / 32"
    by (simp_all add: power3_eq_cube)
  moreover have "0 < fisqrt_seed i"
    unfolding s by simp
  ultimately show ?thesis unfolding p by simp
qed


lemma seed_bounds_even_lo:
  fixes q M :: nat
  assumes "1 \<le> q" "q \<le> 127" "M < 8388608" "M div 2 \<le> 2097145"
  defines "i \<equiv> (2 * q) * 8388608 + M"
  shows "0 < fisqrt_seed i \<and> 7499 / 10000 \<le> (fisqrt_seed i)\<^sup>2 * f32_val i
         \<and> (fisqrt_seed i)\<^sup>2 * f32_val i \<le> 27 / 32"
proof -
  define e' where "e' = 190 - q"
  define mj where "mj = 2097145 - M div 2"
  define x where "x = (8388608 + real M) / 2 ^ 23"
  define y where "y = (8388608 + real mj) / 2 ^ 23"
  define z where "z = y\<^sup>2 * x"
  have e': "e' + q = 190" "1 \<le> e'" "e' \<le> 255" using assms(1,2) by (simp_all add: e'_def)
  have mj: "mj + M div 2 = 2097145" "mj < 8388608" using assms(4) by (simp_all add: mj_def)
  have "i < 2147483648" using assms by (simp add: i_def)
  then have "fisqrt_seed i = f32_val (1595932665 - i div 2)"
    by (rule fisqrt_seed_index)
  also have "1595932665 - i div 2 = e' * 8388608 + mj"
    unfolding i_def using e'(1) mj(1) by (rule seed_even_bits_lo)
  also have "f32_val (e' * 8388608 + mj) = (8388608 + real mj) * 2 ^ e' / 2 ^ 150"
    using e'(2,3) mj(2) by (rule f32_val_normal')
  finally have s: "fisqrt_seed i = (8388608 + real mj) * 2 ^ e' / 2 ^ 150" .
  have v: "f32_val i = (8388608 + real M) * 2 ^ (2 * q) / 2 ^ 150"
    unfolding i_def using assms by (intro f32_val_normal') simp_all
  have "2 * e' + (2 * q) = 380" using e'(1) by linarith
  then have "(fisqrt_seed i)\<^sup>2 * f32_val i = z * (2 ^ 380 / 2 ^ 381)"
    unfolding s v seed_value_sq x_def y_def z_def by (simp only:)
  then have p: "(fisqrt_seed i)\<^sup>2 * f32_val i = z / 2"
    by simp
  have rm: "real mj = 2097145 - real (M div 2)"
    using mj(1) by linarith
  have yl: "14680057 / 8388608 - x / 2 \<le> y" and yu: "y \<le> 7 / 4 - x / 2"
    using half_real [of M] by (simp_all add: x_def y_def rm field_simps)
  have "M \<le> 4194291" using assms(4) by linarith
  then have xb: "1 \<le> x" "x \<le> 3 / 2"
    by (simp_all add: x_def)
  have "14998 / 10000 \<le> z"
    unfolding z_def by (rule seed_case(1) [OF yl yu xb]) (simp_all add: power2_eq_square)
  moreover have "z \<le> 8 * (7 / 4) ^ 3 / 27"
    unfolding z_def
    by (rule seed_case(2) [OF yl yu xb, where L = 0]) (simp_all add: power2_eq_square)
  ultimately have "7499 / 10000 \<le> z / 2" "z / 2 \<le> 27 / 32"
    by (simp_all add: power3_eq_cube)
  moreover have "0 < fisqrt_seed i"
    unfolding s by simp
  ultimately show ?thesis unfolding p by simp
qed

lemma seed_bounds_even_hi:
  fixes q M :: nat
  assumes "1 \<le> q" "q \<le> 127" "M < 8388608" "2097146 \<le> M div 2"
  defines "i \<equiv> (2 * q) * 8388608 + M"
  shows "0 < fisqrt_seed i \<and> 7499 / 10000 \<le> (fisqrt_seed i)\<^sup>2 * f32_val i
         \<and> (fisqrt_seed i)\<^sup>2 * f32_val i \<le> 27 / 32"
proof -
  define e' where "e' = 189 - q"
  define mj where "mj = 10485753 - M div 2"
  define x where "x = (8388608 + real M) / 2 ^ 23"
  define y where "y = (8388608 + real mj) / 2 ^ 23"
  define z where "z = y\<^sup>2 * x"
  have h: "M div 2 \<le> 4194303" using assms(3) by linarith
  have e': "e' + q = 189" "1 \<le> e'" "e' \<le> 255" using assms(1,2) by (simp_all add: e'_def)
  have mj: "mj + M div 2 = 10485753" "mj < 8388608" using assms(4) h by (simp_all add: mj_def)
  have "i < 2147483648" using assms by (simp add: i_def)
  then have "fisqrt_seed i = f32_val (1595932665 - i div 2)"
    by (rule fisqrt_seed_index)
  also have "1595932665 - i div 2 = e' * 8388608 + mj"
    unfolding i_def using e'(1) mj(1) by (rule seed_even_bits_hi)
  also have "f32_val (e' * 8388608 + mj) = (8388608 + real mj) * 2 ^ e' / 2 ^ 150"
    using e'(2,3) mj(2) by (rule f32_val_normal')
  finally have s: "fisqrt_seed i = (8388608 + real mj) * 2 ^ e' / 2 ^ 150" .
  have v: "f32_val i = (8388608 + real M) * 2 ^ (2 * q) / 2 ^ 150"
    unfolding i_def using assms by (intro f32_val_normal') simp_all
  have "2 * e' + (2 * q) = 378" using e'(1) by linarith
  then have "(fisqrt_seed i)\<^sup>2 * f32_val i = z * (2 ^ 378 / 2 ^ 381)"
    unfolding s v seed_value_sq x_def y_def z_def by (simp only:)
  then have p: "(fisqrt_seed i)\<^sup>2 * f32_val i = z / 8"
    by simp
  have rm: "real mj = 10485753 - real (M div 2)"
    using mj(1) by linarith
  have yl: "23068665 / 8388608 - x / 2 \<le> y" and yu: "y \<le> 11 / 4 - x / 2"
    using half_real [of M] by (simp_all add: x_def y_def rm field_simps)
  have "4194292 \<le> M" using assms(4) by linarith
  then have xb: "12582900 / 8388608 \<le> x" "x \<le> 2"
    using assms(3) by (simp_all add: x_def)
  have "59992 / 10000 \<le> z"
    unfolding z_def by (rule seed_case(1) [OF yl yu xb]) (simp_all add: power2_eq_square)
  moreover have "z \<le> 8 * (11 / 4) ^ 3 / 27"
    unfolding z_def
    by (rule seed_case(2) [OF yl yu xb, where L = 0]) (simp_all add: power2_eq_square)
  ultimately have "7499 / 10000 \<le> z / 8" "z / 8 \<le> 27 / 32"
    by (simp_all add: power3_eq_cube)
  moreover have "0 < fisqrt_seed i"
    unfolding s by simp
  ultimately show ?thesis unfolding p by simp
qed

lemma seed_bounds:
  fixes i :: nat
  assumes "8388608 \<le> i" "i < 2139095040"
  shows "0 < fisqrt_seed i \<and> 7499 / 10000 \<le> (fisqrt_seed i)\<^sup>2 * f32_val i
         \<and> (fisqrt_seed i)\<^sup>2 * f32_val i \<le> 27 / 32"
proof -
  define F where "F = i div 8388608"
  define M where "M = i mod 8388608"
  have i: "i = F * 8388608 + M" by (simp add: F_def M_def)
  have M: "M < 8388608" by (simp add: M_def)
  have F: "1 \<le> F" "F \<le> 254" using assms i M by linarith+
  show ?thesis
  proof (cases "even F")
    case False
    then obtain q where q: "F = 2 * q + 1" by (auto elim: oddE)
    then have "q \<le> 126" using F by linarith
    then show ?thesis
      unfolding i q using M by (rule seed_bounds_odd)
  next
    case True
    then obtain q where q: "F = 2 * q" by (auto elim: evenE)
    then have qb: "1 \<le> q" "q \<le> 127" using F by linarith+
    show ?thesis
    proof (cases "M div 2 \<le> 2097145")
      case True
      with qb M show ?thesis unfolding i q by (rule seed_bounds_even_lo)
    next
      case False
      then have "2097146 \<le> M div 2" by linarith
      with qb M show ?thesis unfolding i q by (rule seed_bounds_even_hi)
    qed
  qed
qed

text \<open>The encoding of a real in the normal range: its bits are those of a normal number
  whose value differs from it by at most one part in \<open>2 ^ 24\<close>.\<close>

lemma rne_bounds:
  shows "\<bar>real_of_int (rne r) - r\<bar> \<le> 1 / 2" "\<lfloor>r\<rfloor> \<le> rne r" "rne r \<le> \<lfloor>r\<rfloor> + 1"
proof -
  have "0 \<le> r - of_int \<lfloor>r\<rfloor>" "r - of_int \<lfloor>r\<rfloor> < 1"
    by linarith+
  then show "\<bar>real_of_int (rne r) - r\<bar> \<le> 1 / 2"
    by (auto simp: rne_def Let_def)
  show "\<lfloor>r\<rfloor> \<le> rne r" "rne r \<le> \<lfloor>r\<rfloor> + 1"
    by (auto simp: rne_def Let_def)
qed

lemma f32_exponent_bounds:
  assumes "1 / 2 ^ 126 \<le> a" "a < 2 ^ 127"
  shows "1 \<le> f32_exponent a" "f32_exponent a \<le> 253"
    "2 ^ (f32_exponent a - 1) \<le> a * 2 ^ 126" "a * 2 ^ 126 < 2 ^ f32_exponent a"
proof -
  define u where "u = a * 2 ^ 126"
  define n where "n = nat \<lfloor>u\<rfloor>"
  define E where "E = floorlog 2 n"
  have u1: "1 \<le> u" using assms(1) by (simp add: u_def field_simps)
  have u2: "u < 2 ^ 253"
  proof -
    have "a * 2 ^ 126 < 2 ^ 127 * 2 ^ 126" using assms(2) by simp
    then show ?thesis by (simp add: u_def)
  qed
  have fl: "1 \<le> \<lfloor>u\<rfloor>" using u1 by linarith
  then have n0: "0 < n" by (simp add: n_def)
  have nr: "real n = of_int \<lfloor>u\<rfloor>" using fl by (simp add: n_def)
  have nu: "real n \<le> u" "u < real n + 1" unfolding nr by linarith+
  have b: "2 ^ (E - 1) \<le> n" "n < 2 ^ E"
    using floorlog_bounds [of n 2] n0 by (simp_all add: E_def)
  have E1: "1 \<le> E" using n0 by (simp add: E_def floorlog_def)
  have "real n < 2 ^ 253" using nu(1) u2 by linarith
  then have "n < 2 ^ 253" by (metis of_nat_less_iff of_nat_numeral of_nat_power)
  then have E2: "E \<le> 253" unfolding E_def by (intro floorlog_leI) simp_all
  have ex: "f32_exponent a = E"
    using E1 by (simp add: f32_exponent_def E_def n_def u_def)
  have "(2::real) ^ (E - 1) = real (2 ^ (E - 1))" by simp
  also have "\<dots> \<le> real n" using b(1) by (simp only: of_nat_le_iff)
  finally have l: "2 ^ (E - 1) \<le> u" using nu(1) by linarith
  have "n + 1 \<le> 2 ^ E" using b(2) by simp
  then have "real (n + 1) \<le> real (2 ^ E)" by (simp only: of_nat_le_iff)
  also have "real (2 ^ E) = 2 ^ E" by simp
  finally have "real n + 1 \<le> 2 ^ E" by simp
  then have r: "u < 2 ^ E" using nu(2) by linarith
  show "1 \<le> f32_exponent a" "f32_exponent a \<le> 253"
    "2 ^ (f32_exponent a - 1) \<le> a * 2 ^ 126" "a * 2 ^ 126 < 2 ^ f32_exponent a"
    using E1 E2 l r unfolding ex u_def by simp_all
qed


lemma f32_bits_normal:
  assumes "1 / 2 ^ 126 \<le> a" "a < 2 ^ 127"
  shows "8388608 \<le> f32_bits a" "f32_bits a < 2139095040"
    "\<bar>f32_val (f32_bits a) - a\<bar> \<le> a / 2 ^ 24"
proof -
  define E where "E = f32_exponent a"
  define c :: real where "c = 2 ^ E / 2 ^ 150"
  define x where "x = a * 2 ^ 150 / 2 ^ E"
  define r where "r = nat (rne x)"
  define i where "i = (E - 1) * 8388608 + r"
  have E: "1 \<le> E" "E \<le> 253" and u: "2 ^ (E - 1) \<le> a * 2 ^ 126" "a * 2 ^ 126 < 2 ^ E"
    using f32_exponent_bounds [OF assms] by (simp_all add: E_def)
  have c0: "0 < c" by (simp add: c_def)
  have ac: "a = x * c" by (simp add: x_def c_def)
  have pE: "(2::real) ^ E = 2 * 2 ^ (E - 1)"
    using E(1) by (metis Suc_diff_1 less_eq_Suc_le power_Suc zero_less_one order_less_le_trans)
  have xu: "x = (a * 2 ^ 126) * (2 ^ 24 / 2 ^ E)" by (simp add: x_def)
  have "2 ^ (E - 1) * (2 ^ 24 / 2 ^ E) \<le> x"
    unfolding xu using u(1) by (intro mult_right_mono) simp_all
  moreover have "2 ^ (E - 1) * (2 ^ 24 / 2 ^ E) = (8388608::real)"
    unfolding pE by simp
  ultimately have x1: "8388608 \<le> x" by simp
  have "x < 2 ^ E * (2 ^ 24 / 2 ^ E)"
    unfolding xu using u(2) by (intro mult_strict_right_mono) simp_all
  then have x2: "x < 16777216" by simp
  have f1: "8388608 \<le> \<lfloor>x\<rfloor>" using x1 by linarith
  have f2: "\<lfloor>x\<rfloor> \<le> 16777215" using x2 by linarith
  have R: "8388608 \<le> rne x" "rne x \<le> 16777216"
    using rne_bounds(2,3) [of x] f1 f2 by linarith+
  then have r: "8388608 \<le> r" "r \<le> 16777216" by (simp_all add: r_def)
  have rr: "real r = real_of_int (rne x)" using R by (simp add: r_def)
  have ib: "8388608 \<le> i" "i < 2139095040"
    using E r by (simp_all add: i_def)
  have "f32_bits_abs a = i"
    using ib(2) by (simp add: f32_bits_abs_def Let_def i_def r_def x_def E_def)
  moreover have "0 \<le> a"
    using assms(1) by (meson divide_nonneg_pos order_trans zero_le_one zero_less_numeral zero_less_power)
  ultimately have bits: "f32_bits a = i"
    by (simp add: f32_bits_def)
  have val: "f32_val i = real r * c"
  proof (cases "r = 16777216")
    case True
    have "i = (E + 1) * 8388608 + 0"
      using E(1) by (simp add: i_def True)
    moreover have "f32_val ((E + 1) * 8388608 + 0) = (8388608 + real 0) * 2 ^ (E + 1) / 2 ^ 150"
      using E by (intro f32_val_normal') simp_all
    ultimately show ?thesis
      by (simp add: True c_def)
  next
    case False
    then have lt: "r - 8388608 < 8388608" using r by linarith
    have "i = E * 8388608 + (r - 8388608)"
      using E(1) r(1) by (simp add: i_def algebra_simps)
    moreover have "f32_val (E * 8388608 + (r - 8388608))
        = (8388608 + real (r - 8388608)) * 2 ^ E / 2 ^ 150"
      using E lt by (intro f32_val_normal') simp_all
    moreover have "8388608 + real (r - 8388608) = real r"
      using r(1) by simp
    ultimately show ?thesis
      by (simp add: c_def)
  qed
  have "\<bar>f32_val i - a\<bar> = \<bar>real_of_int (rne x) - x\<bar> * c"
    unfolding val ac rr using c0 by (simp add: abs_mult left_diff_distrib [symmetric])
  also have "\<dots> \<le> (1 / 2) * c"
    using rne_bounds(1) [of x] c0 by (intro mult_right_mono) simp_all
  also have "\<dots> \<le> (x / 2 ^ 24) * c"
    using x1 c0 by (intro mult_right_mono) simp_all
  also have "\<dots> = a / 2 ^ 24"
    by (simp add: ac)
  finally show "\<bar>f32_val (f32_bits a) - a\<bar> \<le> a / 2 ^ 24"
    unfolding bits .
  show "8388608 \<le> f32_bits a" "f32_bits a < 2139095040"
    using ib unfolding bits by simp_all
qed

lemma fisqrt_seed_sq:
  assumes "1 / 2 ^ 126 \<le> a" "a < 2 ^ 127"
  defines "f \<equiv> fisqrt_seed (f32_bits a)"
  shows "0 < f" "7498 / 10000 \<le> f\<^sup>2 * a" "f\<^sup>2 * a \<le> 8438 / 10000"
proof -
  define v where "v = f32_val (f32_bits a)"
  define s where "s = f\<^sup>2"
  have b: "0 < f \<and> 7499 / 10000 \<le> s * v \<and> s * v \<le> 27 / 32"
    unfolding f_def v_def s_def
    using f32_bits_normal(1,2) [OF assms(1,2)] by (rule seed_bounds)
  then show "0 < f" by simp
  have s0: "0 \<le> s" by (simp add: s_def)
  have "\<bar>v - a\<bar> \<le> a / 2 ^ 24"
    unfolding v_def using assms(1,2) by (rule f32_bits_normal(3))
  then have "v \<le> a + a / 2 ^ 24" "a - a / 2 ^ 24 \<le> v"
    by linarith+
  then have "s * v \<le> s * (a + a / 2 ^ 24)" "s * (a - a / 2 ^ 24) \<le> s * v"
    using s0 by (simp_all only: mult_left_mono)
  moreover have "s * (a + a / 2 ^ 24) = (s * a) * (16777217 / 16777216)"
    "s * (a - a / 2 ^ 24) = (s * a) * (16777215 / 16777216)"
    by (simp_all add: algebra_simps)
  ultimately have "7499 / 10000 \<le> (s * a) * (16777217 / 16777216)"
    "(s * a) * (16777215 / 16777216) \<le> 27 / 32"
    using b by linarith+
  then show "7498 / 10000 \<le> f\<^sup>2 * a" "f\<^sup>2 * a \<le> 8438 / 10000"
    unfolding s_def by linarith+
qed

lemma fisqrt_unfold:
  "fisqrt n = fisqrt_seed (f32_bits n)
      * (0.703952253 * (2.38924456 - n * fisqrt_seed (f32_bits n) * fisqrt_seed (f32_bits n)))"
  by (simp add: fisqrt_def fisqrt_seed_def Let_def)

lemma fisqrt_times_sqrt:
  assumes "1 / 2 ^ 126 \<le> n" "n < 2 ^ 127"
  shows "\<bar>fisqrt n * sqrt n - 1\<bar> \<le> 7 / 10000"
proof -
  define f where "f = fisqrt_seed (f32_bits n)"
  define t where "t = f * sqrt n"
  have n0: "0 < n"
    using assms(1) by (meson divide_pos_pos less_le_trans zero_less_numeral zero_less_one zero_less_power)
  have f: "0 < f" "7498 / 10000 \<le> f\<^sup>2 * n" "f\<^sup>2 * n \<le> 8438 / 10000"
    unfolding f_def using assms by (rule fisqrt_seed_sq)+
  have t0: "0 < t" using f(1) n0 by (simp add: t_def)
  have t2: "t\<^sup>2 = f\<^sup>2 * n" using n0 by (simp add: t_def power_mult_distrib)
  have "(8659 / 10000)\<^sup>2 \<le> t\<^sup>2" unfolding t2 using f(2) by (simp add: power2_eq_square)
  then have ta: "8659 / 10000 \<le> t" by (rule power2_le_imp_le) (use t0 in simp)
  have "t\<^sup>2 \<le> (9186 / 10000)\<^sup>2" unfolding t2 using f(3) by (simp add: power2_eq_square)
  then have tb: "t \<le> 9186 / 10000" by (rule power2_le_imp_le) simp
  have e: "fisqrt n * sqrt n = 0.703952253 * t * (2.38924456 - t\<^sup>2)"
    unfolding fisqrt_unfold f_def [symmetric] t2 by (simp add: t_def power2_eq_square)
  have lo: "9993 / 10000 \<le> 0.703952253 * t * (2.38924456 - t\<^sup>2)"
    using ta tb by (rule newton_lower) (simp_all add: power2_eq_square)
  have "0 \<le> t" using t0 by simp
  then have hi: "0.703952253 * t * (2.38924456 - t\<^sup>2) \<le> 10007 / 10000"
    by (rule newton_upper [where s = "89243 / 100000"]) (simp_all add: power2_eq_square power3_eq_cube)
  show ?thesis unfolding e using lo hi by linarith
qed

lemma fisqrt_relative_error:
  assumes "1 / 2 ^ 126 \<le> n" "n < 2 ^ 127"
  shows "\<bar>fisqrt n - 1 / sqrt n\<bar> \<le> (7 / 10000) * (1 / sqrt n)"
proof -
  have n0: "0 < n"
    using assms(1) by (meson divide_pos_pos less_le_trans zero_less_numeral zero_less_one zero_less_power)
  then have s: "0 < sqrt n" by simp
  have "\<bar>fisqrt n - 1 / sqrt n\<bar> * sqrt n = \<bar>fisqrt n * sqrt n - 1\<bar>"
    using s by (simp add: abs_mult [symmetric] left_diff_distrib abs_mult_pos)
  also have "\<dots> \<le> 7 / 10000" using assms by (rule fisqrt_times_sqrt)
  finally show ?thesis using s by (simp add: field_simps)
qed

lemma f32_val_normal_range:
  fixes i :: nat
  assumes "8388608 \<le> i" "i < 2130706432"
  shows "1 / 2 ^ 126 \<le> f32_val i" "f32_val i < 2 ^ 127"
proof -
  define F where "F = i div 8388608"
  define M where "M = i mod 8388608"
  have i: "i = F * 8388608 + M" by (simp add: F_def M_def)
  have M: "M < 8388608" by (simp add: M_def)
  have F: "1 \<le> F" "F \<le> 253" using assms i M by linarith+
  have v: "f32_val i = (8388608 + real M) * 2 ^ F / 2 ^ 150"
    unfolding i using F M by (intro f32_val_normal') simp_all
  have p1: "(2::real) ^ 1 \<le> 2 ^ F" using F(1) by (intro power_increasing) simp_all
  have p2: "(2::real) ^ F \<le> 2 ^ 253" using F(2) by (intro power_increasing) simp_all
  have "8388608 * 2 ^ 1 \<le> (8388608 + real M) * (2::real) ^ F"
    using p1 by (intro mult_mono) simp_all
  then have "8388608 * 2 ^ 1 / 2 ^ 150 \<le> f32_val i"
    unfolding v by (simp only: divide_right_mono zero_le_numeral zero_le_power)
  then show "1 / 2 ^ 126 \<le> f32_val i" by simp
  have "(8388608 + real M) * (2::real) ^ F < 16777216 * 2 ^ 253"
    using p2 M by (intro mult_less_le_imp_less) simp_all
  then have "f32_val i < 16777216 * 2 ^ 253 / 2 ^ 150"
    unfolding v by (simp only: divide_strict_right_mono zero_less_numeral zero_less_power)
  then show "f32_val i < 2 ^ 127" by simp
qed

text \<open>
  Claim C2.  For every real \<open>n\<close> with \<open>2\<^sup>-\<^sup>1\<^sup>2\<^sup>6 \<le> n < 2\<^sup>1\<^sup>2\<^sup>7\<close>, and so for the value of every
  binary32 bit pattern \<open>i\<close> with exponent field from 1 to 253 (the positive normal numbers
  below \<open>2\<^sup>1\<^sup>2\<^sup>7\<close>), \<^verbatim>\<open>fisqrt\<close> returns an approximation of \<open>1 / sqrt n\<close> whose relative
  error is at most 0.07%, which is below the 0.17% and the 0.2% of the claim.  The seed is
  computed on the bits; the refinement step is computed in exact arithmetic.
\<close>

theorem fisqrt_accuracy:
  "(1 / 2 ^ 126 \<le> n \<and> n < 2 ^ 127 \<longrightarrow>
      \<bar>fisqrt n - 1 / sqrt n\<bar> \<le> (7 / 10000) * (1 / sqrt n))
   \<and> (2 ^ 23 \<le> i \<and> i < 254 * 2 ^ 23 \<longrightarrow>
      1 / 2 ^ 126 \<le> f32_val i \<and> f32_val i < 2 ^ 127
      \<and> \<bar>fisqrt (f32_val i) - 1 / sqrt (f32_val i)\<bar> \<le> (7 / 10000) * (1 / sqrt (f32_val i)))"
proof -
  have "1 / 2 ^ 126 \<le> f32_val i \<and> f32_val i < 2 ^ 127
      \<and> \<bar>fisqrt (f32_val i) - 1 / sqrt (f32_val i)\<bar> \<le> (7 / 10000) * (1 / sqrt (f32_val i))"
    if "8388608 \<le> i" "i < 2130706432"
    using f32_val_normal_range [OF that] fisqrt_relative_error [of "f32_val i"] by simp
  then show ?thesis
    using fisqrt_relative_error [of n] by simp
qed

theorem fisqrt_accuracy_witness:
  "\<bar>fisqrt 2 - 1 / sqrt 2\<bar> \<le> (7 / 10000) * (1 / sqrt 2)
   \<and> \<bar>fisqrt (f32_val 0x3F800000) - 1 / sqrt (f32_val 0x3F800000)\<bar>
       \<le> (7 / 10000) * (1 / sqrt (f32_val 0x3F800000))"
  using fisqrt_accuracy [of 2 "0x3F800000"] by simp

subsection \<open>Claim C7: the view matrix of \<^verbatim>\<open>lookAt\<close>\<close>







lemma sq_near_one:
  fixes u :: real
  assumes "\<bar>u - 1\<bar> \<le> 7 / 10000"
  shows "\<bar>u\<^sup>2 - 1\<bar> \<le> 15 / 10000"
proof -
  have l: "9993 / 10000 \<le> u" and h: "u \<le> 10007 / 10000"
    using assms by linarith+
  have "(9993 / 10000)\<^sup>2 \<le> u\<^sup>2"
    using l by (rule power_mono) simp
  moreover have "u\<^sup>2 \<le> (10007 / 10000)\<^sup>2"
    using h by (rule power_mono) (use l in linarith)
  ultimately have "99860049 / 100000000 \<le> u\<^sup>2" "u\<^sup>2 \<le> 100140049 / 100000000"
    by (simp_all add: power2_eq_square)
  then show ?thesis by linarith
qed

lemma fisqrt_sq_times:
  assumes "f32_normal_range s"
  shows "\<bar>(fisqrt s)\<^sup>2 * s - 1\<bar> \<le> 15 / 10000"
proof -
  have s: "1 / 2 ^ 126 \<le> s" "s < 2 ^ 127" using assms by (simp_all add: f32_normal_range_def)
  have s0: "0 \<le> s"
    using s(1) by (meson divide_nonneg_pos order_trans zero_le_one zero_less_numeral zero_less_power)
  have "(fisqrt s * sqrt s)\<^sup>2 = (fisqrt s)\<^sup>2 * s"
    using s0 by (simp add: power_mult_distrib)
  then show ?thesis
    using sq_near_one [OF fisqrt_times_sqrt [OF s]] by simp
qed














subsection \<open>Claim C1: \<^verbatim>\<open>fromRotation\<close> after \<^verbatim>\<open>toRotation\<close>\<close>

text \<open>The entries of a proper rotation: each row is the cross product of the other two, so
  that every product of two entries that \<^verbatim>\<open>fromRotation\<close> forms from the quaternion of
  \<^verbatim>\<open>toRotation\<close> is a polynomial identity in the entries.\<close>

lemma three_squares_zero:
  fixes p q r :: real
  assumes "p * p + q * q + r * r = 0"
  shows "p = 0" "q = 0" "r = 0"
proof -
  have "0 \<le> p * p" "0 \<le> q * q" "0 \<le> r * r" by simp_all
  then have "p * p = 0" "q * q = 0" "r * r = 0" using assms by linarith+
  then show "p = 0" "q = 0" "r = 0" by simp_all
qed

lemma rotation3_cofactors:
  assumes "rotation3 a1 a2 a3 b1 b2 b3 c1 c2 c3"
  shows "a1 = b2 * c3 - b3 * c2" "a2 = b3 * c1 - b1 * c3" "a3 = b1 * c2 - b2 * c1"
    "b1 = c2 * a3 - c3 * a2" "b2 = c3 * a1 - c1 * a3" "b3 = c1 * a2 - c2 * a1"
    "c1 = a2 * b3 - a3 * b2" "c2 = a3 * b1 - a1 * b3" "c3 = a1 * b2 - a2 * b1"
proof -
  define aa where "aa = a1 * a1 + a2 * a2 + a3 * a3"
  define bb where "bb = b1 * b1 + b2 * b2 + b3 * b3"
  define cc where "cc = c1 * c1 + c2 * c2 + c3 * c3"
  define ab where "ab = a1 * b1 + a2 * b2 + a3 * b3"
  define ac where "ac = a1 * c1 + a2 * c2 + a3 * c3"
  define bc where "bc = b1 * c1 + b2 * c2 + b3 * c3"
  define d where "d = a1 * (b2 * c3 - b3 * c2) - a2 * (b1 * c3 - b3 * c1) + a3 * (b1 * c2 - b2 * c1)"
  have h: "aa = 1" "bb = 1" "cc = 1" "ab = 0" "ac = 0" "bc = 0" "d = 1"
    using assms by (simp_all add: rotation3_def aa_def bb_def cc_def ab_def ac_def bc_def d_def)
  have "(c1 - (a2 * b3 - a3 * b2)) * (c1 - (a2 * b3 - a3 * b2))
      + (c2 - (a3 * b1 - a1 * b3)) * (c2 - (a3 * b1 - a1 * b3))
      + (c3 - (a1 * b2 - a2 * b1)) * (c3 - (a1 * b2 - a2 * b1))
      = cc - 2 * d + (aa * bb - ab * ab)"
    unfolding aa_def bb_def cc_def ab_def d_def by (simp add: algebra_simps)
  also have "\<dots> = 0" by (simp add: h)
  finally have c: "c1 - (a2 * b3 - a3 * b2) = 0" "c2 - (a3 * b1 - a1 * b3) = 0"
    "c3 - (a1 * b2 - a2 * b1) = 0"
    by (rule three_squares_zero)+
  have "(a1 - (b2 * c3 - b3 * c2)) * (a1 - (b2 * c3 - b3 * c2))
      + (a2 - (b3 * c1 - b1 * c3)) * (a2 - (b3 * c1 - b1 * c3))
      + (a3 - (b1 * c2 - b2 * c1)) * (a3 - (b1 * c2 - b2 * c1))
      = aa - 2 * d + (bb * cc - bc * bc)"
    unfolding aa_def bb_def cc_def bc_def d_def by (simp add: algebra_simps)
  also have "\<dots> = 0" by (simp add: h)
  finally have a: "a1 - (b2 * c3 - b3 * c2) = 0" "a2 - (b3 * c1 - b1 * c3) = 0"
    "a3 - (b1 * c2 - b2 * c1) = 0"
    by (rule three_squares_zero)+
  have "(b1 - (c2 * a3 - c3 * a2)) * (b1 - (c2 * a3 - c3 * a2))
      + (b2 - (c3 * a1 - c1 * a3)) * (b2 - (c3 * a1 - c1 * a3))
      + (b3 - (c1 * a2 - c2 * a1)) * (b3 - (c1 * a2 - c2 * a1))
      = bb - 2 * d + (cc * aa - ac * ac)"
    unfolding aa_def bb_def cc_def ac_def d_def by (simp add: algebra_simps)
  also have "\<dots> = 0" by (simp add: h)
  finally have b: "b1 - (c2 * a3 - c3 * a2) = 0" "b2 - (c3 * a1 - c1 * a3) = 0"
    "b3 - (c1 * a2 - c2 * a1) = 0"
    by (rule three_squares_zero)+
  show "a1 = b2 * c3 - b3 * c2" "a2 = b3 * c1 - b1 * c3" "a3 = b1 * c2 - b2 * c1"
    "b1 = c2 * a3 - c3 * a2" "b2 = c3 * a1 - c1 * a3" "b3 = c1 * a2 - c2 * a1"
    "c1 = a2 * b3 - a3 * b2" "c2 = a3 * b1 - a1 * b3" "c3 = a1 * b2 - a2 * b1"
    using a b c by simp_all
qed

lemma rotation3_rows:
  assumes "rotation3 a1 a2 a3 b1 b2 b3 c1 c2 c3"
  shows "a1 * a1 + a2 * a2 + a3 * a3 = 1" "b1 * b1 + b2 * b2 + b3 * b3 = 1"
    "c1 * c1 + c2 * c2 + c3 * c3 = 1"
    "a1 * b1 + a2 * b2 + a3 * b3 = 0" "a1 * c1 + a2 * c2 + a3 * c3 = 0"
    "b1 * c1 + b2 * c2 + b3 * c3 = 0"
  using assms by (simp_all add: rotation3_def)

lemma rotation3_trace:
  assumes "rotation3 a1 a2 a3 b1 b2 b3 c1 c2 c3"
  shows "(c1 - a3) * (c1 - a3) + (a2 - b1) * (a2 - b1) = 2 * (a1 + b2 + c3 + 1) * (1 - a1)"
    "(b3 - c2) * (b3 - c2) + (a2 - b1) * (a2 - b1) = 2 * (a1 + b2 + c3 + 1) * (1 - b2)"
    "(b3 - c2) * (b3 - c2) + (c1 - a3) * (c1 - a3) = 2 * (a1 + b2 + c3 + 1) * (1 - c3)"
    "(b3 - c2) * (c1 - a3) - (a1 + b2 + c3 + 1) * (a2 - b1) = 2 * (a1 + b2 + c3 + 1) * b1"
    "(b3 - c2) * (c1 - a3) + (a1 + b2 + c3 + 1) * (a2 - b1) = 2 * (a1 + b2 + c3 + 1) * a2"
    "(b3 - c2) * (a2 - b1) + (a1 + b2 + c3 + 1) * (c1 - a3) = 2 * (a1 + b2 + c3 + 1) * c1"
    "(b3 - c2) * (a2 - b1) - (a1 + b2 + c3 + 1) * (c1 - a3) = 2 * (a1 + b2 + c3 + 1) * a3"
    "(c1 - a3) * (a2 - b1) - (a1 + b2 + c3 + 1) * (b3 - c2) = 2 * (a1 + b2 + c3 + 1) * c2"
    "(c1 - a3) * (a2 - b1) + (a1 + b2 + c3 + 1) * (b3 - c2) = 2 * (a1 + b2 + c3 + 1) * b3"
  using rotation3_cofactors [OF assms] rotation3_rows [OF assms] by algebra+

lemma rotation3_x:
  assumes "rotation3 a1 a2 a3 b1 b2 b3 c1 c2 c3"
  shows "(a2 + b1) * (a2 + b1) + (c1 + a3) * (c1 + a3) = 2 * (a1 - b2 - c3 + 1) * (1 - a1)"
    "(a1 - b2 - c3 + 1) * (a1 - b2 - c3 + 1) + (c1 + a3) * (c1 + a3) = 2 * (a1 - b2 - c3 + 1) * (1 - b2)"
    "(a1 - b2 - c3 + 1) * (a1 - b2 - c3 + 1) + (a2 + b1) * (a2 + b1) = 2 * (a1 - b2 - c3 + 1) * (1 - c3)"
    "(a1 - b2 - c3 + 1) * (a2 + b1) - (b3 - c2) * (c1 + a3) = 2 * (a1 - b2 - c3 + 1) * b1"
    "(a1 - b2 - c3 + 1) * (a2 + b1) + (b3 - c2) * (c1 + a3) = 2 * (a1 - b2 - c3 + 1) * a2"
    "(a1 - b2 - c3 + 1) * (c1 + a3) + (b3 - c2) * (a2 + b1) = 2 * (a1 - b2 - c3 + 1) * c1"
    "(a1 - b2 - c3 + 1) * (c1 + a3) - (b3 - c2) * (a2 + b1) = 2 * (a1 - b2 - c3 + 1) * a3"
    "(a2 + b1) * (c1 + a3) - (b3 - c2) * (a1 - b2 - c3 + 1) = 2 * (a1 - b2 - c3 + 1) * c2"
    "(a2 + b1) * (c1 + a3) + (b3 - c2) * (a1 - b2 - c3 + 1) = 2 * (a1 - b2 - c3 + 1) * b3"
  using rotation3_cofactors [OF assms] rotation3_rows [OF assms] by algebra+

lemma rotation3_y:
  assumes "rotation3 a1 a2 a3 b1 b2 b3 c1 c2 c3"
  shows "(- a1 + b2 - c3 + 1) * (- a1 + b2 - c3 + 1) + (b3 + c2) * (b3 + c2) = 2 * (- a1 + b2 - c3 + 1) * (1 - a1)"
    "(a2 + b1) * (a2 + b1) + (b3 + c2) * (b3 + c2) = 2 * (- a1 + b2 - c3 + 1) * (1 - b2)"
    "(a2 + b1) * (a2 + b1) + (- a1 + b2 - c3 + 1) * (- a1 + b2 - c3 + 1) = 2 * (- a1 + b2 - c3 + 1) * (1 - c3)"
    "(a2 + b1) * (- a1 + b2 - c3 + 1) - (c1 - a3) * (b3 + c2) = 2 * (- a1 + b2 - c3 + 1) * b1"
    "(a2 + b1) * (- a1 + b2 - c3 + 1) + (c1 - a3) * (b3 + c2) = 2 * (- a1 + b2 - c3 + 1) * a2"
    "(a2 + b1) * (b3 + c2) + (c1 - a3) * (- a1 + b2 - c3 + 1) = 2 * (- a1 + b2 - c3 + 1) * c1"
    "(a2 + b1) * (b3 + c2) - (c1 - a3) * (- a1 + b2 - c3 + 1) = 2 * (- a1 + b2 - c3 + 1) * a3"
    "(- a1 + b2 - c3 + 1) * (b3 + c2) - (c1 - a3) * (a2 + b1) = 2 * (- a1 + b2 - c3 + 1) * c2"
    "(- a1 + b2 - c3 + 1) * (b3 + c2) + (c1 - a3) * (a2 + b1) = 2 * (- a1 + b2 - c3 + 1) * b3"
  using rotation3_cofactors [OF assms] rotation3_rows [OF assms] by algebra+

lemma rotation3_z:
  assumes "rotation3 a1 a2 a3 b1 b2 b3 c1 c2 c3"
  shows "(b3 + c2) * (b3 + c2) + (- a1 - b2 + c3 + 1) * (- a1 - b2 + c3 + 1) = 2 * (- a1 - b2 + c3 + 1) * (1 - a1)"
    "(c1 + a3) * (c1 + a3) + (- a1 - b2 + c3 + 1) * (- a1 - b2 + c3 + 1) = 2 * (- a1 - b2 + c3 + 1) * (1 - b2)"
    "(c1 + a3) * (c1 + a3) + (b3 + c2) * (b3 + c2) = 2 * (- a1 - b2 + c3 + 1) * (1 - c3)"
    "(c1 + a3) * (b3 + c2) - (a2 - b1) * (- a1 - b2 + c3 + 1) = 2 * (- a1 - b2 + c3 + 1) * b1"
    "(c1 + a3) * (b3 + c2) + (a2 - b1) * (- a1 - b2 + c3 + 1) = 2 * (- a1 - b2 + c3 + 1) * a2"
    "(c1 + a3) * (- a1 - b2 + c3 + 1) + (a2 - b1) * (b3 + c2) = 2 * (- a1 - b2 + c3 + 1) * c1"
    "(c1 + a3) * (- a1 - b2 + c3 + 1) - (a2 - b1) * (b3 + c2) = 2 * (- a1 - b2 + c3 + 1) * a3"
    "(b3 + c2) * (- a1 - b2 + c3 + 1) - (a2 - b1) * (c1 + a3) = 2 * (- a1 - b2 + c3 + 1) * c2"
    "(b3 + c2) * (- a1 - b2 + c3 + 1) + (a2 - b1) * (c1 + a3) = 2 * (- a1 - b2 + c3 + 1) * b3"
  using rotation3_cofactors [OF assms] rotation3_rows [OF assms] by algebra+

lemma rotation3_entries:
  assumes "rotation3 a1 a2 a3 b1 b2 b3 c1 c2 c3"
  shows "\<bar>a1\<bar> \<le> 1" "\<bar>a2\<bar> \<le> 1" "\<bar>a3\<bar> \<le> 1" "\<bar>b1\<bar> \<le> 1" "\<bar>b2\<bar> \<le> 1" "\<bar>b3\<bar> \<le> 1"
    "\<bar>c1\<bar> \<le> 1" "\<bar>c2\<bar> \<le> 1" "\<bar>c3\<bar> \<le> 1"
proof -
  have e: "\<bar>p\<bar> \<le> 1" "\<bar>q\<bar> \<le> 1" "\<bar>r\<bar> \<le> 1" if "p * p + q * q + r * r = 1" for p q r :: real
  proof -
    have "0 \<le> p * p" "0 \<le> q * q" "0 \<le> r * r" by simp_all
    then have "p * p \<le> 1" "q * q \<le> 1" "r * r \<le> 1" using that by linarith+
    then have "p\<^sup>2 \<le> 1\<^sup>2" "q\<^sup>2 \<le> 1\<^sup>2" "r\<^sup>2 \<le> 1\<^sup>2" by (simp_all add: power2_eq_square)
    then show "\<bar>p\<bar> \<le> 1" "\<bar>q\<bar> \<le> 1" "\<bar>r\<bar> \<le> 1"
      by (simp_all only: abs_le_square_iff [symmetric] abs_one)
  qed
  show "\<bar>a1\<bar> \<le> 1" "\<bar>a2\<bar> \<le> 1" "\<bar>a3\<bar> \<le> 1" "\<bar>b1\<bar> \<le> 1" "\<bar>b2\<bar> \<le> 1" "\<bar>b3\<bar> \<le> 1"
    "\<bar>c1\<bar> \<le> 1" "\<bar>c2\<bar> \<le> 1" "\<bar>c3\<bar> \<le> 1"
    using e [OF rotation3_rows(1) [OF assms]] e [OF rotation3_rows(2) [OF assms]]
      e [OF rotation3_rows(3) [OF assms]] by simp_all
qed

text \<open>\<^verbatim>\<open>fromRotation\<close> at a quaternion \<open>h (u, v, s, w)\<close> whose components satisfy the
  nine product identities of a rotation with branch argument \<open>T\<close>.\<close>

lemma fromRotation_scaled:
  fixes u v s w T h :: real
  assumes "v * v + s * s = 2 * T * (1 - a1)"
    "u * u + s * s = 2 * T * (1 - b2)"
    "u * u + v * v = 2 * T * (1 - c3)"
    "u * v - w * s = 2 * T * b1"
    "u * v + w * s = 2 * T * a2"
    "u * s + w * v = 2 * T * c1"
    "u * s - w * v = 2 * T * a3"
    "v * s - w * u = 2 * T * c2"
    "v * s + w * u = 2 * T * b3"
  shows "fromRotation (Quaternion (u * h) (v * h) (s * h) (w * h)) = Float4x4
     (Float4 (1 - (4 * h * h * T) * (1 - a1)) ((4 * h * h * T) * b1) ((4 * h * h * T) * c1) 0)
     (Float4 ((4 * h * h * T) * a2) (1 - (4 * h * h * T) * (1 - b2)) ((4 * h * h * T) * c2) 0)
     (Float4 ((4 * h * h * T) * a3) ((4 * h * h * T) * b3) (1 - (4 * h * h * T) * (1 - c3)) 0)
     (Float4 0 0 0 1)"
proof -
  have e: "p = 2 * h * h * x \<Longrightarrow> x = 2 * T * y \<Longrightarrow> p = (4 * h * h * T) * y" for p x y :: real
    by simp
  have "v * h * (v * h + v * h) + s * h * (s * h + s * h) = (4 * h * h * T) * (1 - a1)"
    by (rule e [OF _ assms(1)]) (simp add: algebra_simps)
  then have d1: "1 - v * h * (v * h + v * h) - s * h * (s * h + s * h) = 1 - (4 * h * h * T) * (1 - a1)"
    by linarith
  have "u * h * (u * h + u * h) + s * h * (s * h + s * h) = (4 * h * h * T) * (1 - b2)"
    by (rule e [OF _ assms(2)]) (simp add: algebra_simps)
  then have d2: "1 - u * h * (u * h + u * h) - s * h * (s * h + s * h) = 1 - (4 * h * h * T) * (1 - b2)"
    by linarith
  have "u * h * (u * h + u * h) + v * h * (v * h + v * h) = (4 * h * h * T) * (1 - c3)"
    by (rule e [OF _ assms(3)]) (simp add: algebra_simps)
  then have d3: "1 - u * h * (u * h + u * h) - v * h * (v * h + v * h) = 1 - (4 * h * h * T) * (1 - c3)"
    by linarith
  have o1: "u * h * (v * h + v * h) - w * h * (s * h + s * h) = (4 * h * h * T) * b1"
    by (rule e [OF _ assms(4)]) (simp add: algebra_simps)
  have o2: "u * h * (v * h + v * h) + w * h * (s * h + s * h) = (4 * h * h * T) * a2"
    by (rule e [OF _ assms(5)]) (simp add: algebra_simps)
  have o3: "u * h * (s * h + s * h) + w * h * (v * h + v * h) = (4 * h * h * T) * c1"
    by (rule e [OF _ assms(6)]) (simp add: algebra_simps)
  have o4: "u * h * (s * h + s * h) - w * h * (v * h + v * h) = (4 * h * h * T) * a3"
    by (rule e [OF _ assms(7)]) (simp add: algebra_simps)
  have o5: "v * h * (s * h + s * h) - w * h * (u * h + u * h) = (4 * h * h * T) * c2"
    by (rule e [OF _ assms(8)]) (simp add: algebra_simps)
  have o6: "v * h * (s * h + s * h) + w * h * (u * h + u * h) = (4 * h * h * T) * b3"
    by (rule e [OF _ assms(9)]) (simp add: algebra_simps)
  show ?thesis
    unfolding fromRotation_def Let_def Quaternion_def quaternion.simps
    by (simp only: d1 d2 d3 o1 o2 o3 o4 o5 o6)
qed

lemma fisqrt_half_sq: "4 * (fisqrt T * 0.5) * (fisqrt T * 0.5) * T = (fisqrt T)\<^sup>2 * T"
  by (simp add: power2_eq_square)

text \<open>In each of the four branches of \<^verbatim>\<open>toRotation\<close>, the round trip gives
  \<open>I + \<rho> (R\<^sup>T - I)\<close> with \<open>\<rho> = fisqrt(T)\<^sup>2 T\<close>: the off-diagonal entries come back with the
  indices exchanged.\<close>

lemma fromRotation_toRotation:
  assumes "is_rotation m"
  shows "fromRotation (toRotation m)
         = transposed_blend ((fisqrt (toRotation_arg m))\<^sup>2 * toRotation_arg m) m"
proof -
  define a1 where "a1 = values_at m 0 0"
  define a2 where "a2 = values_at m 0 1"
  define a3 where "a3 = values_at m 0 2"
  define b1 where "b1 = values_at m 1 0"
  define b2 where "b2 = values_at m 1 1"
  define b3 where "b3 = values_at m 1 2"
  define c1 where "c1 = values_at m 2 0"
  define c2 where "c2 = values_at m 2 1"
  define c3 where "c3 = values_at m 2 2"
  note defs = a1_def a2_def a3_def b1_def b2_def b3_def c1_def c2_def c3_def
  have r: "rotation3 a1 a2 a3 b1 b2 b3 c1 c2 c3"
    using assms unfolding is_rotation_def defs by simp
  have tb: "transposed_blend \<rho> m = Float4x4
     (Float4 (1 - \<rho> * (1 - a1)) (\<rho> * b1) (\<rho> * c1) 0)
     (Float4 (\<rho> * a2) (1 - \<rho> * (1 - b2)) (\<rho> * c2) 0)
     (Float4 (\<rho> * a3) (\<rho> * b3) (1 - \<rho> * (1 - c3)) 0)
     (Float4 0 0 0 1)" for \<rho>
    unfolding transposed_blend_def defs ..
  show ?thesis
  proof (cases "a1 + b2 + c3 > 0")
    case True
    define T where "T = a1 + b2 + c3 + 1"
    define h where "h = fisqrt T * 0.5"
    have arg: "toRotation_arg m = T"
      using True by (simp add: toRotation_arg_def Let_def defs T_def)
    have "toRotation m = Quaternion ((b3 - c2) * h) ((c1 - a3) * h) ((a2 - b1) * h) (h * T)"
      using True by (simp add: toRotation_def Let_def defs T_def h_def)
    also have "h * T = T * h" by simp
    finally have q: "toRotation m = Quaternion ((b3 - c2) * h) ((c1 - a3) * h) ((a2 - b1) * h) (T * h)" .
    show ?thesis
      unfolding q arg tb T_def
      using fromRotation_scaled [OF rotation3_trace [OF r], of h]
      by (simp only: h_def T_def fisqrt_half_sq)
  next
    case False
    note nt = False
    show ?thesis
    proof (cases "a1 > b2 \<and> a1 > c3")
      case True
      define T where "T = a1 - b2 - c3 + 1"
      define h where "h = fisqrt T * 0.5"
      have arg: "toRotation_arg m = T"
        using nt True by (simp add: toRotation_arg_def Let_def defs T_def)
      have "toRotation m = Quaternion (h * T) ((a2 + b1) * h) ((c1 + a3) * h) ((b3 - c2) * h)"
        using nt True by (simp add: toRotation_def Let_def defs T_def h_def)
      also have "h * T = T * h" by simp
      finally have q: "toRotation m = Quaternion (T * h) ((a2 + b1) * h) ((c1 + a3) * h) ((b3 - c2) * h)" .
      show ?thesis
        unfolding q arg tb T_def
        using fromRotation_scaled [OF rotation3_x [OF r], of h]
        by (simp only: h_def T_def fisqrt_half_sq)
    next
      case False
      note nx = False
      show ?thesis
      proof (cases "b2 > c3")
        case True
        define T where "T = - a1 + b2 - c3 + 1"
        define h where "h = fisqrt T * 0.5"
        have nx': "\<not> (values_at m 0 0 > values_at m 1 1 \<and> values_at m 0 0 > values_at m 2 2)"
          using nx by (simp add: defs)
        have arg: "toRotation_arg m = T"
          using nt True unfolding toRotation_arg_def Let_def if_not_P [OF nx']
          by (simp add: defs T_def)
        have "toRotation m = Quaternion ((a2 + b1) * h) (h * T) ((b3 + c2) * h) ((c1 - a3) * h)"
          using nt True unfolding toRotation_def Let_def if_not_P [OF nx']
          by (simp add: defs T_def h_def)
        also have "h * T = T * h" by simp
        finally have q: "toRotation m = Quaternion ((a2 + b1) * h) (T * h) ((b3 + c2) * h) ((c1 - a3) * h)" .
        show ?thesis
          unfolding q arg tb T_def
          using fromRotation_scaled [OF rotation3_y [OF r], of h]
          by (simp only: h_def T_def fisqrt_half_sq)
      next
        case False
        define T where "T = - a1 - b2 + c3 + 1"
        define h where "h = fisqrt T * 0.5"
        have nx': "\<not> (values_at m 0 0 > values_at m 1 1 \<and> values_at m 0 0 > values_at m 2 2)"
          using nx by (simp add: defs)
        have arg: "toRotation_arg m = T"
          using nt False unfolding toRotation_arg_def Let_def if_not_P [OF nx']
          by (simp add: defs T_def)
        have "toRotation m = Quaternion ((c1 + a3) * h) ((b3 + c2) * h) (h * T) ((a2 - b1) * h)"
          using nt False unfolding toRotation_def Let_def if_not_P [OF nx']
          by (simp add: defs T_def h_def)
        also have "h * T = T * h" by simp
        finally have q: "toRotation m = Quaternion ((c1 + a3) * h) ((b3 + c2) * h) (T * h) ((a2 - b1) * h)" .
        show ?thesis
          unfolding q arg tb T_def
          using fromRotation_scaled [OF rotation3_z [OF r], of h]
          by (simp only: h_def T_def fisqrt_half_sq)
      qed
    qed
  qed
qed

lemma toRotation_arg_range:
  assumes "is_rotation m"
  shows "1 \<le> toRotation_arg m" "toRotation_arg m \<le> 4"
proof -
  define a1 where "a1 = values_at m 0 0"
  define b2 where "b2 = values_at m 1 1"
  define c3 where "c3 = values_at m 2 2"
  have "rotation3 a1 (values_at m 0 1) (values_at m 0 2) (values_at m 1 0) b2 (values_at m 1 2)
      (values_at m 2 0) (values_at m 2 1) c3"
    using assms unfolding is_rotation_def a1_def b2_def c3_def by simp
  from rotation3_entries(1,5,9) [OF this]
  have e: "- 1 \<le> a1" "a1 \<le> 1" "- 1 \<le> b2" "b2 \<le> 1" "- 1 \<le> c3" "c3 \<le> 1"
    by linarith+
  have d: "toRotation_arg m =
      (if a1 + b2 + c3 > 0 then a1 + b2 + c3 + 1
       else if a1 > b2 \<and> a1 > c3 then a1 - b2 - c3 + 1
       else if b2 > c3 then - a1 + b2 - c3 + 1 else - a1 - b2 + c3 + 1)"
    unfolding toRotation_arg_def Let_def a1_def b2_def c3_def ..
  show "1 \<le> toRotation_arg m"
    unfolding d by (auto; linarith)
  show "toRotation_arg m \<le> 4"
    unfolding d using e by (auto; linarith)
qed

lemma abs_mult_bound:
  fixes x y :: real
  assumes "\<bar>x\<bar> \<le> e" "\<bar>y\<bar> \<le> k"
  shows "\<bar>x * y\<bar> \<le> e * k"
proof -
  have "0 \<le> e" using assms(1) by linarith
  with assms show ?thesis
    unfolding abs_mult by (intro mult_mono) simp_all
qed

lemma transposed_blend_near:
  assumes "is_rotation m" "\<bar>\<rho> - 1\<bar> \<le> 15 / 10000"
  shows "float4x4_near (3 / 1000) (transposed_blend \<rho> m) (transposed m)"
proof -
  define a1 where "a1 = values_at m 0 0"
  define a2 where "a2 = values_at m 0 1"
  define a3 where "a3 = values_at m 0 2"
  define b1 where "b1 = values_at m 1 0"
  define b2 where "b2 = values_at m 1 1"
  define b3 where "b3 = values_at m 1 2"
  define c1 where "c1 = values_at m 2 0"
  define c2 where "c2 = values_at m 2 1"
  define c3 where "c3 = values_at m 2 2"
  note defs = a1_def a2_def a3_def b1_def b2_def b3_def c1_def c2_def c3_def
  have r: "rotation3 a1 a2 a3 b1 b2 b3 c1 c2 c3"
    using assms(1) unfolding is_rotation_def defs by simp
  have h: "values_at m 0 3 = 0" "values_at m 1 3 = 0" "values_at m 2 3 = 0"
    "values_at m 3 0 = 0" "values_at m 3 1 = 0" "values_at m 3 2 = 0" "values_at m 3 3 = 1"
    using assms(1) unfolding is_rotation_def by simp_all
  note e = rotation3_entries [OF r]
  have off: "\<bar>\<rho> * x - x\<bar> \<le> 3 / 1000" if "\<bar>x\<bar> \<le> 1" for x
  proof -
    have "\<bar>(\<rho> - 1) * x\<bar> \<le> (15 / 10000) * 1"
      using assms(2) that by (rule abs_mult_bound)
    then show ?thesis by (simp add: algebra_simps)
  qed
  have dia: "\<bar>1 - \<rho> * (1 - x) - x\<bar> \<le> 3 / 1000" if "\<bar>x\<bar> \<le> 1" for x
  proof -
    have "\<bar>1 - x\<bar> \<le> 2" using that by linarith
    with assms(2) have "\<bar>(\<rho> - 1) * (1 - x)\<bar> \<le> (15 / 10000) * 2"
      by (rule abs_mult_bound)
    moreover have "1 - \<rho> * (1 - x) - x = - ((\<rho> - 1) * (1 - x))"
      by (simp add: algebra_simps)
    ultimately show ?thesis by simp
  qed
  show ?thesis
    unfolding float4x4_near_def float4_near_def transposed_blend_def transposed_def h
      defs [symmetric]
    using off [OF e(2)] off [OF e(3)] off [OF e(4)] off [OF e(6)] off [OF e(7)] off [OF e(8)]
      dia [OF e(1)] dia [OF e(5)] dia [OF e(9)]
    by (simp add: Float4x4_def Float4_def)
qed

text \<open>\<^verbatim>\<open>quaternion::operator *(float3)\<close> rotates by the matrix that \<^verbatim>\<open>fromRotation\<close>
  builds.\<close>

lemma quaternion_mul_float3_fromRotation:
  "quaternion_mul_float3 q v = float4x4_mul_float3 (fromRotation q) v"
  by (simp add: quaternion_mul_float3_def float4x4_mul_float3_def float4x4_mul_float4_def
      fromRotation_def float4_dot_def float4_to_float3_def Float3_def Float4_def Float4x4_def
      Let_def)

text \<open>In exact arithmetic, \<^verbatim>\<open>fromRotation(toRotation(R))\<close> is within \<open>0.003\<close> of the
  transpose of \<open>R\<close> for every proper rotation \<open>R\<close>, in each of the four branches of
  \<^verbatim>\<open>toRotation\<close>.\<close>

lemma fromRotation_toRotation_near_transposed:
  assumes "is_rotation R"
  shows "float4x4_near (3 / 1000) (fromRotation (toRotation R)) (transposed R)"
proof -
  have "f32_normal_range (toRotation_arg R)"
    using toRotation_arg_range [OF assms] by (simp add: f32_normal_range_def)
  then have "\<bar>(fisqrt (toRotation_arg R))\<^sup>2 * toRotation_arg R - 1\<bar> \<le> 15 / 10000"
    by (rule fisqrt_sq_times)
  with assms show ?thesis
    unfolding fromRotation_toRotation [OF assms] by (rule transposed_blend_near)
qed

text \<open>The quarter turn about the z axis, and the quaternion that \<^verbatim>\<open>toRotation\<close> returns for
  it.\<close>

lemma is_rotation_quarter_turn_z: "is_rotation quarter_turn_z"
  by (simp add: is_rotation_def rotation3_def quarter_turn_z_def values_at_def float4x4_rows_def
      float4_values_def Float4x4_def Float4_def)

lemma toRotation_quarter_turn_z:
  "toRotation quarter_turn_z = Quaternion 0 0 (- fisqrt 2) (fisqrt 2)"
  by (simp add: toRotation_def quarter_turn_z_def values_at_def float4x4_rows_def
      float4_values_def Float4x4_def Float4_def Quaternion_def Let_def)

lemma fisqrt_2_sq:
  "9985 / 10000 \<le> 2 * (fisqrt 2 * fisqrt 2)" "2 * (fisqrt 2 * fisqrt 2) \<le> 10015 / 10000"
proof -
  have "f32_normal_range 2" by (simp add: f32_normal_range_def)
  then have "\<bar>(fisqrt 2)\<^sup>2 * 2 - 1\<bar> \<le> 15 / 10000"
    by (rule fisqrt_sq_times)
  then have "\<bar>fisqrt 2 * fisqrt 2 * 2 - 1\<bar> \<le> 15 / 10000"
    by (simp only: power2_eq_square)
  then show "9985 / 10000 \<le> 2 * (fisqrt 2 * fisqrt 2)"
    "2 * (fisqrt 2 * fisqrt 2) \<le> 10015 / 10000"
    by linarith+
qed

text \<open>
  Claim C1 fails.  The quarter turn \<open>R\<close> about the z axis is a rotation matrix (of the
  positive-trace branch; its entries are \<open>0\<close>, \<open>1\<close> and \<open>- 1\<close>).  \<^verbatim>\<open>R * (1, 0, 0)\<close> is
  \<open>(0, 1, 0)\<close>, and \<^verbatim>\<open>toRotation(R) * (1, 0, 0)\<close> has its first component within \<open>0.01\<close> of
  \<open>0\<close> and its second component below \<open>- 0.99\<close>: the quaternion turns the other way.  So the entry of \<open>R\<close> in row 0, column 1 is \<open>- 1\<close>, and
  the entry of \<^verbatim>\<open>fromRotation(toRotation(R))\<close> there is at least \<open>0.99\<close>.
\<close>

theorem toRotation_opposite_rotation:
  "is_rotation quarter_turn_z
   \<and> float4x4_mul_float3 quarter_turn_z (Float3 1 0 0) = Float3 0 1 0
   \<and> \<bar>f3x (quaternion_mul_float3 (toRotation quarter_turn_z) (Float3 1 0 0))\<bar> \<le> 1 / 100
   \<and> f3y (quaternion_mul_float3 (toRotation quarter_turn_z) (Float3 1 0 0)) \<le> - 99 / 100
   \<and> values_at quarter_turn_z 0 1 = - 1
   \<and> 99 / 100 \<le> values_at (fromRotation (toRotation quarter_turn_z)) 0 1"
proof -
  have a: "float4x4_mul_float3 quarter_turn_z (Float3 1 0 0) = Float3 0 1 0"
    by (simp add: quarter_turn_z_def float4x4_mul_float3_def float4x4_mul_float4_def
        float4_dot_def float4_to_float3_def Float3_def Float4_def Float4x4_def)
  have b: "f3y (quaternion_mul_float3 (toRotation quarter_turn_z) (Float3 1 0 0))
      = - (2 * (fisqrt 2 * fisqrt 2))"
    "f3x (quaternion_mul_float3 (toRotation quarter_turn_z) (Float3 1 0 0))
      = 1 - 2 * (fisqrt 2 * fisqrt 2)"
    by (simp_all add: toRotation_quarter_turn_z quaternion_mul_float3_def Quaternion_def
        Float3_def Let_def)
  have c: "values_at quarter_turn_z 0 1 = - 1"
    by (simp add: quarter_turn_z_def values_at_def float4x4_rows_def float4_values_def
        Float4x4_def Float4_def)
  have d: "values_at (fromRotation (toRotation quarter_turn_z)) 0 1 = 2 * (fisqrt 2 * fisqrt 2)"
    by (simp add: toRotation_quarter_turn_z fromRotation_def Quaternion_def values_at_def
        float4x4_rows_def float4_values_def Float4x4_def Float4_def Let_def)
  have "\<bar>1 - 2 * (fisqrt 2 * fisqrt 2)\<bar> \<le> 1 / 100"
    "- (2 * (fisqrt 2 * fisqrt 2)) \<le> - 99 / 100" "99 / 100 \<le> 2 * (fisqrt 2 * fisqrt 2)"
    using fisqrt_2_sq by linarith+
  then show ?thesis
    using is_rotation_quarter_turn_z unfolding a b c d by (simp only: simp_thms)
qed

end
